theory Spec2Isabelle
  imports Main "HOL-Library.Word" "HOL-Library.Sublist"
begin

unbundle bit_operations_syntax

section \<open>The CH423 GPIO expander driver (ch423.c)\<close>

text \<open>
  The driver keeps three cached values per chip (\<open>config\<close>, \<open>io_dir\<close>, \<open>last_output\<close>)
  and talks to the chip through \<open>i2c_transfer\<close>, one single-byte message at a time. The
  model passes the device structure explicitly: every function takes the \<open>struct ch423\<close>
  and returns it updated, next to the C return value. The mutex is not modelled; the
  functions are taken one call at a time.

  C types: \<open>u8\<close> is \<open>8 word\<close>; \<open>unsigned long\<close> is \<open>64 word\<close> (an LP64 kernel); the
  \<open>int\<close> return codes and \<open>io_dir\<close>, on which the driver does no arithmetic, are \<open>int\<close>;
  the \<open>int value\<close> that \<open>ch423_gpio_set\<close> shifts is a \<open>32 word\<close>, sign-extended where C
  converts it to \<open>unsigned long\<close>. Line offsets are \<open>nat\<close>; gpiolib only passes offsets
  below \<open>ngpio = 24\<close>, and the C shifts are defined for those.
\<close>

type_synonym u8 = "8 word"
type_synonym ulong = "64 word"

subsection \<open>Constants\<close>

definition CMD_SET_OC_L :: "16 word" where "CMD_SET_OC_L = 0x22"
definition CMD_SET_OC_H :: "16 word" where "CMD_SET_OC_H = 0x23"
definition CMD_CFG :: "16 word" where "CMD_CFG = 0x24"
definition CMD_READ_IO :: "16 word" where "CMD_READ_IO = 0x26"
definition CMD_SET_IO :: "16 word" where "CMD_SET_IO = 0x30"

text \<open>\<open>BIT(n)\<close> of linux/bits.h is \<open>1UL << n\<close>.\<close>

definition BIT :: "nat \<Rightarrow> ulong" where
  "BIT n = push_bit n 1"

definition CMD_CFG_IO_OE :: ulong where "CMD_CFG_IO_OE = BIT 0"
definition CMD_CFG_OD_EN :: ulong where "CMD_CFG_OD_EN = BIT 4"

text \<open>
  Values of the kernel headers the driver includes: the two line directions of
  linux/gpio/driver.h, the message flag of linux/i2c.h and the two error numbers.
\<close>

definition GPIO_LINE_DIRECTION_IN :: int where "GPIO_LINE_DIRECTION_IN = 1"
definition GPIO_LINE_DIRECTION_OUT :: int where "GPIO_LINE_DIRECTION_OUT = 0"
definition I2C_M_RD :: "16 word" where "I2C_M_RD = 0x0001"
definition EINVAL :: int where "EINVAL = 22"
definition ENOTSUPP :: int where "ENOTSUPP = 524"

text \<open>
  \<open>enum pin_config_param\<close> of linux/pinctrl/pinconf-generic.h: the two drive modes the
  driver tests for, and every other parameter by its number.
\<close>

datatype pin_config_param =
    PIN_CONFIG_DRIVE_OPEN_DRAIN
  | PIN_CONFIG_DRIVE_PUSH_PULL
  | PIN_CONFIG_OTHER nat

subsection \<open>The bus\<close>

text \<open>
  A \<open>struct i2c_msg\<close> of length 1. \<open>buf\<close> is the byte the message carries; the receive
  buffer of a read holds no byte yet (\<open>None\<close>).
\<close>

record i2c_msg =
  addr :: "16 word"
  flags :: "16 word"
  len :: nat
  buf :: "u8 option"

text \<open>
  The adapter is outside the driver. \<open>answer\<close> is what it does with a message, given
  everything transferred before: the return value of \<open>i2c_transfer\<close> (negative errno, or
  the number of messages transferred) and the byte left in the buffer of a read.
  \<open>traffic\<close> records every message handed to the adapter, oldest first, with the value
  returned for it.
\<close>

record i2c_adapter =
  answer :: "(i2c_msg \<times> int) list \<Rightarrow> i2c_msg \<Rightarrow> int \<times> u8"
  traffic :: "(i2c_msg \<times> int) list"

record ch423 =
  client :: i2c_adapter
  config :: u8
  io_dir :: int
  last_output :: ulong

definition i2c_transfer :: "i2c_adapter \<Rightarrow> i2c_msg \<Rightarrow> int \<times> u8 \<times> i2c_adapter" where
  "i2c_transfer adap msg =
     (let (ret, byte) = answer adap (traffic adap) msg
      in (ret, byte, adap\<lparr>traffic := traffic adap @ [(msg, ret)]\<rparr>))"

text \<open>The write message the driver builds: \<open>{ .addr = a, .len = 1, .buf = &param }\<close>.\<close>

definition wr_msg :: "16 word \<Rightarrow> u8 \<Rightarrow> i2c_msg" where
  "wr_msg a param = \<lparr>addr = a, flags = 0, len = 1, buf = Some param\<rparr>"

text \<open>The read message: \<open>{ .addr = a, .len = 1, .buf = &param, .flags = I2C_M_RD }\<close>.\<close>

definition rd_msg :: "16 word \<Rightarrow> i2c_msg" where
  "rd_msg a = \<lparr>addr = a, flags = I2C_M_RD, len = 1, buf = None\<rparr>"

text \<open>\<open>i2c_transfer(dev->client->adapter, &msg, 1)\<close> for a write and for a read.\<close>

definition i2c_write :: "ch423 \<Rightarrow> 16 word \<Rightarrow> u8 \<Rightarrow> int \<times> ch423" where
  "i2c_write dev a param =
     (let (ret, byte, adap) = i2c_transfer (client dev) (wr_msg a param)
      in (ret, dev\<lparr>client := adap\<rparr>))"

definition i2c_read :: "ch423 \<Rightarrow> 16 word \<Rightarrow> int \<times> u8 \<times> ch423" where
  "i2c_read dev a =
     (let (ret, byte, adap) = i2c_transfer (client dev) (rd_msg a)
      in (ret, byte, dev\<lparr>client := adap\<rparr>))"

subsection \<open>The driver's functions\<close>

definition ch423_gpio_get_direction :: "ch423 \<Rightarrow> nat \<Rightarrow> int" where
  "ch423_gpio_get_direction dev offset =
     (if offset \<ge> 8 then GPIO_LINE_DIRECTION_OUT else io_dir dev)"

text \<open>
  \<open>param\<close> is promoted to \<open>int\<close> before the shift, so the shift is one of a 32-bit value.
\<close>

definition ch423_gpio_get :: "ch423 \<Rightarrow> nat \<Rightarrow> int \<times> ch423" where
  "ch423_gpio_get dev offset =
     (let (ret, param, dev1) = i2c_read dev CMD_READ_IO
      in if ret < 0 then (ret, dev1)
         else (sint (drop_bit offset (ucast param :: 32 word) AND 0x01), dev1))"

text \<open>
  \<open>write_outputs\<close> declares \<open>int ret\<close> without a value, and its third block tests \<open>ret\<close>
  without assigning it. \<open>ret0\<close> is the content of \<open>ret\<close> at entry, whatever it is; the
  third block's \<open>i2c_transfer\<close> is called for its effect on the bus only, as the source
  drops its result.
\<close>

definition write_outputs :: "int \<Rightarrow> ch423 \<Rightarrow> ulong \<Rightarrow> int \<times> ch423" where
  "write_outputs ret0 dev values =
     (let io = (io_dir dev = GPIO_LINE_DIRECTION_OUT \<and>
                values AND 0xff \<noteq> last_output dev AND 0xff);
          (ret1, dev1) = (if io then i2c_write dev CMD_SET_IO (ucast (values AND 0xff))
                          else (ret0, dev))
      in if io \<and> ret1 < 0 then (ret1, dev1)
      else
        let oc_l = (values AND 0xff00 \<noteq> last_output dev1 AND 0xff00);
            (ret2, dev2) = (if oc_l
                            then i2c_write dev1 CMD_SET_OC_L (ucast (drop_bit 8 values AND 0xff))
                            else (ret1, dev1))
        in if oc_l \<and> ret2 < 0 then (ret2, dev2)
        else
          let oc_h = (values AND 0xff0000 \<noteq> last_output dev2 AND 0xff0000);
              dev3 = (if oc_h
                      then snd (i2c_write dev2 CMD_SET_OC_H (ucast (drop_bit 16 values AND 0xff)))
                      else dev2)
          in if oc_h \<and> ret2 < 0 then (ret2, dev3)
          else (0, dev3\<lparr>last_output := values\<rparr>))"

text \<open>
  Both setters are \<open>void\<close>: the value \<open>write_outputs\<close> returns is dropped. They, and the
  functions that call them, pass \<open>ret0\<close> on to \<open>write_outputs\<close>.
\<close>

definition set_multiple_values :: "ch423 \<Rightarrow> ulong \<Rightarrow> ulong \<Rightarrow> ulong" where
  "set_multiple_values dev mask' bits = (last_output dev AND NOT mask') OR (bits AND mask')"

definition ch423_gpio_set_multiple :: "int \<Rightarrow> ch423 \<Rightarrow> ulong \<Rightarrow> ulong \<Rightarrow> ch423" where
  "ch423_gpio_set_multiple ret0 dev mask' bits =
     snd (write_outputs ret0 dev (set_multiple_values dev mask' bits))"

text \<open>
  \<open>value << offset\<close> is a shift of an \<open>int\<close>; the result is converted to
  \<open>unsigned long\<close>, with sign extension, before the \<open>|=\<close>.
\<close>

definition set_values :: "ch423 \<Rightarrow> nat \<Rightarrow> 32 word \<Rightarrow> ulong" where
  "set_values dev offset val =
     (last_output dev AND NOT (BIT offset)) OR scast (push_bit offset val)"

definition ch423_gpio_set :: "int \<Rightarrow> ch423 \<Rightarrow> nat \<Rightarrow> 32 word \<Rightarrow> ch423" where
  "ch423_gpio_set ret0 dev offset val =
     snd (write_outputs ret0 dev (set_values dev offset val))"

definition set_config :: "ch423 \<Rightarrow> u8 \<Rightarrow> int \<times> ch423" where
  "set_config dev cfg =
     (if config dev = cfg then (0, dev)
      else
        let (ret, dev1) = i2c_write dev CMD_CFG cfg
        in if ret < 0 then (ret, dev1)
           else (0, dev1\<lparr>config := cfg\<rparr>))"

text \<open>
  \<open>dev->config & ~CMD_CFG_IO_OE\<close> is computed in \<open>unsigned long\<close> and cut to \<open>u8\<close> when
  it is passed to \<open>set_config\<close>.
\<close>

definition ch423_gpio_direction_input :: "ch423 \<Rightarrow> nat \<Rightarrow> int \<times> ch423" where
  "ch423_gpio_direction_input dev offset =
     (if offset \<ge> 8 then (- EINVAL, dev)
      else
        let (ret, dev1) = set_config dev (ucast (ucast (config dev) AND NOT CMD_CFG_IO_OE))
        in (ret, if ret = 0 then dev1\<lparr>io_dir := GPIO_LINE_DIRECTION_IN\<rparr> else dev1))"

definition ch423_gpio_direction_output :: "int \<Rightarrow> ch423 \<Rightarrow> nat \<Rightarrow> 32 word \<Rightarrow> int \<times> ch423" where
  "ch423_gpio_direction_output ret0 dev offset val =
     (if offset < 8 \<and> io_dir dev \<noteq> GPIO_LINE_DIRECTION_OUT
      then
        let (ret, dev1) = set_config dev (ucast (ucast (config dev) OR CMD_CFG_IO_OE))
        in if ret < 0 then (ret, dev1)
           else (0, ch423_gpio_set ret0 (dev1\<lparr>io_dir := GPIO_LINE_DIRECTION_OUT\<rparr>) offset val)
      else (0, ch423_gpio_set ret0 dev offset val))"

text \<open>
  \<open>pinconf_to_config_param\<close> is a macro of the pin-control headers; the function takes
  it as the parameter \<open>to_param\<close>.
\<close>

definition ch423_gpio_set_config ::
    "(ulong \<Rightarrow> pin_config_param) \<Rightarrow> ch423 \<Rightarrow> nat \<Rightarrow> ulong \<Rightarrow> int \<times> ch423" where
  "ch423_gpio_set_config to_param dev offset cfg =
     (let param = to_param cfg
      in if offset < 8 then (- ENOTSUPP, dev)
         else if param = PIN_CONFIG_DRIVE_OPEN_DRAIN
           then set_config dev (ucast (ucast (config dev) OR CMD_CFG_OD_EN))
         else if param = PIN_CONFIG_DRIVE_PUSH_PULL
           then set_config dev (ucast (ucast (config dev) AND NOT CMD_CFG_OD_EN))
         else (- ENOTSUPP, dev))"

text \<open>
  The part of \<open>ch423_probe\<close> that sets the chip up: from the zeroed structure, once
  \<open>devm_kzalloc\<close> has returned it, to the call that registers the lines with gpiolib
  (not modelled; the model returns 0 there).
\<close>

definition ch423_probe :: "int \<Rightarrow> i2c_adapter \<Rightarrow> int \<times> ch423" where
  "ch423_probe ret0 adap =
     (let dev = \<lparr>client = adap, config = 0xff, io_dir = GPIO_LINE_DIRECTION_IN,
                 last_output = 0\<rparr>;
          (ret, dev1) = set_config dev 0
      in if ret \<noteq> 0 then (ret, dev1)
         else
           let (ret', dev2) = write_outputs ret0 (dev1\<lparr>last_output := 0xffff00\<rparr>) 0
           in if ret' \<noteq> 0 then (ret', dev2) else (0, dev2))"

subsection \<open>Vocabulary of the statements\<close>

text \<open>The transactions an operation issued: what it added to the traffic.\<close>

definition issued :: "ch423 \<Rightarrow> ch423 \<Rightarrow> (i2c_msg \<times> int) list" where
  "issued dev dev' = drop (length (traffic (client dev))) (traffic (client dev'))"

text \<open>The device after the transactions \<open>xs\<close>, its cached values untouched.\<close>

definition after :: "ch423 \<Rightarrow> (i2c_msg \<times> int) list \<Rightarrow> ch423" where
  "after dev xs = dev\<lparr>client := (client dev)\<lparr>traffic := traffic (client dev) @ xs\<rparr>\<rparr>"

text \<open>
  What the adapter returns for \<open>msg\<close>, and the byte it leaves in the buffer, when the
  transactions \<open>xs\<close> have gone out since \<open>dev\<close>.
\<close>

definition reply :: "ch423 \<Rightarrow> (i2c_msg \<times> int) list \<Rightarrow> i2c_msg \<Rightarrow> int" where
  "reply dev xs msg = fst (answer (client dev) (traffic (client dev) @ xs) msg)"

definition byte_read :: "ch423 \<Rightarrow> (i2c_msg \<times> int) list \<Rightarrow> i2c_msg \<Rightarrow> u8" where
  "byte_read dev xs msg = snd (answer (client dev) (traffic (client dev) @ xs) msg)"

text \<open>Byte \<open>k\<close> of a 24-bit output value: lines \<open>8k\<close> to \<open>8k + 7\<close>.\<close>

definition byte_of :: "nat \<Rightarrow> ulong \<Rightarrow> u8" where
  "byte_of k x = ucast (drop_bit (8 * k) x)"

text \<open>
  The writes a call of \<open>write_outputs\<close> has to make, in the order of the source: one for
  each byte of the desired value that differs from the cache, the byte of the
  bidirectional lines only while they are outputs.
\<close>

definition due_writes :: "ch423 \<Rightarrow> ulong \<Rightarrow> i2c_msg list" where
  "due_writes dev v =
     (if io_dir dev = GPIO_LINE_DIRECTION_OUT \<and> byte_of 0 v \<noteq> byte_of 0 (last_output dev)
      then [wr_msg CMD_SET_IO (byte_of 0 v)] else []) @
     (if byte_of 1 v \<noteq> byte_of 1 (last_output dev)
      then [wr_msg CMD_SET_OC_L (byte_of 1 v)] else []) @
     (if byte_of 2 v \<noteq> byte_of 2 (last_output dev)
      then [wr_msg CMD_SET_OC_H (byte_of 2 v)] else [])"

text \<open>
  Sending a list of messages in order, after the transactions \<open>xs\<close>, and stopping at
  the first that the adapter fails: the result is every transaction that went out, the
  failed one included as the last.
\<close>

fun send_until_failure ::
    "ch423 \<Rightarrow> (i2c_msg \<times> int) list \<Rightarrow> i2c_msg list \<Rightarrow> (i2c_msg \<times> int) list" where
  "send_until_failure dev xs [] = xs"
| "send_until_failure dev xs (m # ms) =
     (if reply dev xs m < 0 then xs @ [(m, reply dev xs m)]
      else send_until_failure dev (xs @ [(m, reply dev xs m)]) ms)"

text \<open>
  The cached direction agrees with the cached IO_OE bit. The probe establishes it and
  every operation keeps it (lemmas \<open>coherent_probe\<close> and \<open>coherent_*\<close> below).
\<close>

definition coherent :: "ch423 \<Rightarrow> bool" where
  "coherent dev =
     (if bit (config dev) 0 then io_dir dev = GPIO_LINE_DIRECTION_OUT
      else io_dir dev = GPIO_LINE_DIRECTION_IN)"

subsection \<open>Adapters and device states to run the driver on\<close>

text \<open>
  An adapter that transfers every message (and reads \<open>0xA5\<close>), one that fails every
  message with \<open>-EIO\<close>, and one that fails the messages of one command only.
\<close>

definition adapter_ok :: i2c_adapter where
  "adapter_ok = \<lparr>answer = (\<lambda>hist msg. (1, 0xA5)), traffic = []\<rparr>"

definition adapter_dead :: i2c_adapter where
  "adapter_dead = \<lparr>answer = (\<lambda>hist msg. (- 5, 0)), traffic = []\<rparr>"

definition adapter_nak :: "16 word \<Rightarrow> i2c_adapter" where
  "adapter_nak a = \<lparr>answer = (\<lambda>hist msg. if addr msg = a then (- 5, 0) else (1, 0xA5)),
                    traffic = []\<rparr>"

text \<open>
  The cached values a successful probe leaves (lines 0 to 7 inputs, all outputs low),
  and the same device once lines 0 to 7 have been made outputs.
\<close>

definition dev_input :: "i2c_adapter \<Rightarrow> ch423" where
  "dev_input adap =
     \<lparr>client = adap, config = 0, io_dir = GPIO_LINE_DIRECTION_IN, last_output = 0\<rparr>"

definition dev_output :: "i2c_adapter \<Rightarrow> ch423" where
  "dev_output adap =
     \<lparr>client = adap, config = 1, io_dir = GPIO_LINE_DIRECTION_OUT, last_output = 0\<rparr>"

section \<open>Properties\<close>

subsection \<open>Bytes and masks\<close>

lemmas cmd_defs =
  CMD_SET_OC_L_def CMD_SET_OC_H_def CMD_CFG_def CMD_READ_IO_def CMD_SET_IO_def

lemmas run_defs =
  cmd_defs GPIO_LINE_DIRECTION_IN_def GPIO_LINE_DIRECTION_OUT_def EINVAL_def ENOTSUPP_def
  I2C_M_RD_def BIT_def CMD_CFG_IO_OE_def CMD_CFG_OD_EN_def
  adapter_ok_def adapter_dead_def adapter_nak_def dev_input_def dev_output_def
  i2c_transfer_def i2c_write_def i2c_read_def wr_msg_def rd_msg_def issued_def
  write_outputs_def set_config_def set_values_def set_multiple_values_def
  ch423_gpio_get_direction_def ch423_gpio_get_def ch423_gpio_set_def
  ch423_gpio_set_multiple_def ch423_gpio_direction_input_def
  ch423_gpio_direction_output_def ch423_gpio_set_config_def Let_def

lemma mask_ff: "(0xff :: ulong) = mask 8"
  by (simp add: mask_eq_exp_minus_1)

lemma mask_ff00: "(0xff00 :: ulong) = push_bit 8 (mask 8)"
  by (simp add: mask_eq_exp_minus_1 push_bit_eq_mult)

lemma mask_ff0000: "(0xff0000 :: ulong) = push_bit 16 (mask 8)"
  by (simp add: mask_eq_exp_minus_1 push_bit_eq_mult)

text \<open>Two values agree under the mask of byte \<open>k\<close> exactly when their bytes \<open>k\<close> agree.\<close>

lemma and_mask_byte:
  fixes v l :: ulong
  shows "(v AND push_bit (8 * k) (mask 8) = l AND push_bit (8 * k) (mask 8))
           \<longleftrightarrow> byte_of k v = byte_of k l"
proof
  assume h: "v AND push_bit (8 * k) (mask 8) = l AND push_bit (8 * k) (mask 8)"
  show "byte_of k v = byte_of k l"
  proof (rule bit_eqI)
    fix n
    assume "possible_bit TYPE(u8) n"
    then have n: "n < 8"
      by (simp add: possible_bit_def)
    from h have "bit (v AND push_bit (8 * k) (mask 8)) (8 * k + n)
                   = bit (l AND push_bit (8 * k) (mask 8)) (8 * k + n)"
      by simp
    with n show "bit (byte_of k v) n = bit (byte_of k l) n"
      by (auto simp: byte_of_def bit_simps dest: bit_imp_le_length)
  qed
next
  assume h: "byte_of k v = byte_of k l"
  show "v AND push_bit (8 * k) (mask 8) = l AND push_bit (8 * k) (mask 8)"
  proof (rule bit_eqI)
    fix n
    show "bit (v AND push_bit (8 * k) (mask 8)) n = bit (l AND push_bit (8 * k) (mask 8)) n"
    proof (cases "8 * k \<le> n \<and> n - 8 * k < 8")
      case True
      from h have "bit (byte_of k v) (n - 8 * k) = bit (byte_of k l) (n - 8 * k)"
        by simp
      with True show ?thesis
        by (auto simp: byte_of_def bit_simps)
    next
      case False
      then show ?thesis
        by (auto simp: bit_simps)
    qed
  qed
qed

lemma diff_byte0: "(v AND 0xff = l AND 0xff) \<longleftrightarrow> byte_of 0 v = byte_of 0 (l::ulong)"
  using and_mask_byte [of v 0 l] by (simp add: mask_ff)

lemma diff_byte1: "(v AND 0xff00 = l AND 0xff00) \<longleftrightarrow> byte_of 1 v = byte_of 1 (l::ulong)"
  using and_mask_byte [of v 1 l] by (simp add: mask_ff00)

lemma diff_byte2: "(v AND 0xff0000 = l AND 0xff0000) \<longleftrightarrow> byte_of 2 v = byte_of 2 (l::ulong)"
  using and_mask_byte [of v 2 l] by (simp add: mask_ff0000)

lemma ucast_and_ff: "ucast (v AND 0xff :: ulong) = byte_of 0 v"
  unfolding mask_ff byte_of_def by (rule bit_eqI) (auto simp: bit_simps)

text \<open>The \<open>unsigned long\<close> detour of the config expressions stays within the byte.\<close>

lemma config_clear_bit: "ucast (ucast (c::u8) AND NOT (BIT n)) = (c AND NOT (push_bit n 1) :: u8)"
  by (rule bit_eqI) (auto simp: bit_simps BIT_def)

lemma config_set_bit: "ucast (ucast (c::u8) OR BIT n) = (c OR push_bit n 1 :: u8)"
  by (rule bit_eqI) (auto simp: bit_simps BIT_def)

text \<open>Setting and clearing bit 4, the open-drain bit, of a config byte.\<close>

lemma bit_push_4: "bit (push_bit 4 1 :: u8) i = (i = 4)"
  by (auto simp only: bit_push_bit_iff bit_1_iff possible_bit_word) simp_all

lemma sixteen: "(16 :: u8) = push_bit 4 1"
  by simp

lemma set_bit4: "bit (c OR 16) i = (bit c i \<or> i = 4)" for c :: u8
  unfolding sixteen by (simp only: bit_or_iff bit_push_4)

lemma clear_bit4: "bit (c AND NOT 16) i = (bit c i \<and> i \<noteq> 4)" for c :: u8
  unfolding sixteen
  by (auto simp only: bit_and_iff bit_not_iff bit_push_4 dest: bit_imp_possible_bit)

lemma clear_bit4': "bit (c AND - 17) i = (bit c i \<and> i \<noteq> 4)" for c :: u8
  using clear_bit4 [of c i] by simp

lemma get_bit:
  "drop_bit offset (ucast (param::u8) :: 32 word) AND 0x01 = (if bit param offset then 1 else 0)"
  by (rule bit_eqI) (auto simp: bit_simps dest: bit_imp_le_length intro!: gr0I)

subsection \<open>Traffic bookkeeping\<close>

lemma after_simps [simp]:
  "config (after dev xs) = config dev"
  "io_dir (after dev xs) = io_dir dev"
  "last_output (after dev xs) = last_output dev"
  "answer (client (after dev xs)) = answer (client dev)"
  "traffic (client (after dev xs)) = traffic (client dev) @ xs"
  by (simp_all add: after_def)

lemma after_after [simp]: "after (after dev xs) ys = after dev (xs @ ys)"
  by (simp add: after_def)

lemma after_Nil [simp]: "after dev [] = dev"
  by (simp add: after_def)

lemma issued_after [simp]:
  "issued dev (after dev xs) = xs"
  "issued dev ((after dev xs)\<lparr>last_output := v\<rparr>) = xs"
  "issued dev ((after dev xs)\<lparr>config := c\<rparr>) = xs"
  "issued dev ((after dev xs)\<lparr>io_dir := d\<rparr>) = xs"
  by (simp_all add: issued_def)

lemma issued_self [simp]:
  "issued dev dev = []"
  "issued dev (dev\<lparr>last_output := v\<rparr>) = []"
  "issued dev (dev\<lparr>config := c\<rparr>) = []"
  "issued dev (dev\<lparr>io_dir := d\<rparr>) = []"
  by (simp_all add: issued_def)

lemma reply_after [simp]: "reply (after dev xs) ys m = reply dev (xs @ ys) m"
  by (simp add: reply_def)

lemma i2c_write_after:
  "i2c_write dev a p =
     (reply dev [] (wr_msg a p), after dev [(wr_msg a p, reply dev [] (wr_msg a p))])"
  by (simp add: i2c_write_def i2c_transfer_def after_def reply_def split: prod.splits)

lemma i2c_read_after:
  "i2c_read dev a =
     (reply dev [] (rd_msg a), byte_read dev [] (rd_msg a),
      after dev [(rd_msg a, reply dev [] (rd_msg a))])"
  by (simp add: i2c_read_def i2c_transfer_def after_def reply_def byte_read_def
           split: prod.splits)

subsection \<open>\<open>write_outputs\<close>, block by block\<close>

text \<open>
  The three blocks with their conditions, replies and transactions named. In \<open>ret2\<close> the
  value that the third block tests: the reply to the last earlier write, or \<open>ret0\<close>.
\<close>

lemma write_outputs_nf:
  assumes io: "io = (io_dir dev = GPIO_LINE_DIRECTION_OUT \<and>
                     byte_of 0 v \<noteq> byte_of 0 (last_output dev))"
    and ocl: "ocl = (byte_of 1 v \<noteq> byte_of 1 (last_output dev))"
    and och: "och = (byte_of 2 v \<noteq> byte_of 2 (last_output dev))"
    and x0: "x0 = (if io then [(wr_msg CMD_SET_IO (byte_of 0 v), r0)] else [])"
    and r0: "r0 = reply dev [] (wr_msg CMD_SET_IO (byte_of 0 v))"
    and x1: "x1 = (if ocl then [(wr_msg CMD_SET_OC_L (byte_of 1 v), r1)] else [])"
    and r1: "r1 = reply dev x0 (wr_msg CMD_SET_OC_L (byte_of 1 v))"
    and x2: "x2 = (if och then [(wr_msg CMD_SET_OC_H (byte_of 2 v), r2)] else [])"
    and r2: "r2 = reply dev (x0 @ x1) (wr_msg CMD_SET_OC_H (byte_of 2 v))"
    and ret2: "ret2 = (if ocl then r1 else if io then r0 else ret0)"
  shows "write_outputs ret0 dev v =
     (if io \<and> r0 < 0 then (r0, after dev x0)
      else if ocl \<and> r1 < 0 then (r1, after dev (x0 @ x1))
      else if och \<and> ret2 < 0 then (ret2, after dev (x0 @ x1 @ x2))
      else (0, (after dev (x0 @ x1 @ x2))\<lparr>last_output := v\<rparr>))"
proof -
  have c0: "(v AND 0xff \<noteq> last_output dev AND 0xff)
              = (byte_of 0 v \<noteq> byte_of 0 (last_output dev))"
    by (simp add: diff_byte0)
  have c1: "(v AND 0xff00 \<noteq> last_output d AND 0xff00) = ocl"
    if "last_output d = last_output dev" for d
    using that by (simp add: diff_byte1 ocl)
  have c2: "(v AND 0xff0000 \<noteq> last_output d AND 0xff0000) = och"
    if "last_output d = last_output dev" for d
    using that by (simp add: diff_byte2 och)
  have bd1: "byte_of 0 (drop_bit 8 v) = byte_of (Suc 0) v"
    and bd2: "byte_of 0 (drop_bit 16 v) = byte_of 2 v"
    by (simp_all add: byte_of_def)
  have e: "write_outputs ret0 dev v =
     (let (ret1, dev1) = (if io then i2c_write dev CMD_SET_IO (byte_of 0 v) else (ret0, dev))
      in if io \<and> ret1 < 0 then (ret1, dev1)
      else
        let (ret2', dev2) = (if ocl then i2c_write dev1 CMD_SET_OC_L (byte_of 1 v)
                             else (ret1, dev1))
        in if ocl \<and> ret2' < 0 then (ret2', dev2)
        else
          let dev3 = (if och then snd (i2c_write dev2 CMD_SET_OC_H (byte_of 2 v)) else dev2)
          in if och \<and> ret2' < 0 then (ret2', dev3)
          else (0, dev3\<lparr>last_output := v\<rparr>))"
    by (simp add: write_outputs_def c0 c1 c2 ucast_and_ff bd1 bd2 i2c_write_after Let_def io)
  show ?thesis
  proof (cases io)
    case True
    note io_t = True
    show ?thesis
    proof (cases ocl)
      case True
      with io_t x0 r0 x1 r1 x2 r2 ret2 show ?thesis
        by (cases och) (simp_all add: e i2c_write_after)
    next
      case False
      with io_t x0 r0 x1 r1 x2 r2 ret2 show ?thesis
        by (cases och) (simp_all add: e i2c_write_after)
    qed
  next
    case False
    note io_f = False
    show ?thesis
    proof (cases ocl)
      case True
      with io_f x0 r0 x1 r1 x2 r2 ret2 show ?thesis
        by (cases och) (simp_all add: e i2c_write_after)
    next
      case False
      with io_f x0 r0 x1 r1 x2 r2 ret2 show ?thesis
        by (cases och) (simp_all add: e i2c_write_after)
    qed
  qed
qed

lemmas write_outputs_unfolded =
  write_outputs_nf [OF refl refl refl refl refl refl refl refl refl refl]

lemma write_outputs_traffic:
  "traffic (client (snd (write_outputs ret0 dev v))) =
     traffic (client dev) @ issued dev (snd (write_outputs ret0 dev v))"
  by (simp add: write_outputs_unfolded)

lemma write_outputs_frame [simp]:
  "config (snd (write_outputs ret0 dev v)) = config dev"
  "io_dir (snd (write_outputs ret0 dev v)) = io_dir dev"
  "answer (client (snd (write_outputs ret0 dev v))) = answer (client dev)"
  by (simp_all add: write_outputs_unfolded)

text \<open>
  A failure of the first or of the second write ends the call: that failure is the
  result and the cache is as before.
\<close>

lemma write_outputs_early_failure:
  assumes "(m, r) \<in> set (issued dev (snd (write_outputs ret0 dev v)))"
    and "r < 0" and "addr m \<noteq> CMD_SET_OC_H"
  shows "fst (write_outputs ret0 dev v) = r \<and>
         last_output (snd (write_outputs ret0 dev v)) = last_output dev"
proof -
  define io where "io = (io_dir dev = GPIO_LINE_DIRECTION_OUT \<and>
                         byte_of 0 v \<noteq> byte_of 0 (last_output dev))"
  define ocl where "ocl = (byte_of 1 v \<noteq> byte_of 1 (last_output dev))"
  define och where "och = (byte_of 2 v \<noteq> byte_of 2 (last_output dev))"
  define r0 where "r0 = reply dev [] (wr_msg CMD_SET_IO (byte_of 0 v))"
  define x0 where "x0 = (if io then [(wr_msg CMD_SET_IO (byte_of 0 v), r0)] else [])"
  define r1 where "r1 = reply dev x0 (wr_msg CMD_SET_OC_L (byte_of 1 v))"
  define x1 where "x1 = (if ocl then [(wr_msg CMD_SET_OC_L (byte_of 1 v), r1)] else [])"
  define r2 where "r2 = reply dev (x0 @ x1) (wr_msg CMD_SET_OC_H (byte_of 2 v))"
  define x2 where "x2 = (if och then [(wr_msg CMD_SET_OC_H (byte_of 2 v), r2)] else [])"
  define ret2 where "ret2 = (if ocl then r1 else if io then r0 else ret0)"
  note nf = write_outputs_nf
    [OF io_def ocl_def och_def x0_def r0_def x1_def r1_def x2_def r2_def ret2_def]
  have a2: "addr (wr_msg CMD_SET_OC_H b) = CMD_SET_OC_H" for b
    by (simp add: wr_msg_def)
  from assms show ?thesis
    unfolding nf x0_def x1_def x2_def ret2_def
    by (cases io; cases ocl; cases och) (auto simp: a2 split: if_splits)
qed

text \<open>
  The messages of a call are an initial part of the due writes, and all of them when
  no transaction fails.
\<close>

lemma write_outputs_due:
  "prefix (map fst (issued dev (snd (write_outputs ret0 dev v)))) (due_writes dev v) \<and>
   ((\<forall>(m, r) \<in> set (issued dev (snd (write_outputs ret0 dev v))). 0 \<le> r) \<longrightarrow>
      map fst (issued dev (snd (write_outputs ret0 dev v))) = due_writes dev v)"
proof -
  define io where "io = (io_dir dev = GPIO_LINE_DIRECTION_OUT \<and>
                         byte_of 0 v \<noteq> byte_of 0 (last_output dev))"
  define ocl where "ocl = (byte_of 1 v \<noteq> byte_of 1 (last_output dev))"
  define och where "och = (byte_of 2 v \<noteq> byte_of 2 (last_output dev))"
  define r0 where "r0 = reply dev [] (wr_msg CMD_SET_IO (byte_of 0 v))"
  define x0 where "x0 = (if io then [(wr_msg CMD_SET_IO (byte_of 0 v), r0)] else [])"
  define r1 where "r1 = reply dev x0 (wr_msg CMD_SET_OC_L (byte_of 1 v))"
  define x1 where "x1 = (if ocl then [(wr_msg CMD_SET_OC_L (byte_of 1 v), r1)] else [])"
  define r2 where "r2 = reply dev (x0 @ x1) (wr_msg CMD_SET_OC_H (byte_of 2 v))"
  define x2 where "x2 = (if och then [(wr_msg CMD_SET_OC_H (byte_of 2 v), r2)] else [])"
  define ret2 where "ret2 = (if ocl then r1 else if io then r0 else ret0)"
  note nf = write_outputs_nf
    [OF io_def ocl_def och_def x0_def r0_def x1_def r1_def x2_def r2_def ret2_def]
  have dw: "due_writes dev v = map fst (x0 @ x1 @ x2)"
    by (simp add: due_writes_def x0_def x1_def x2_def io_def ocl_def och_def)
  show ?thesis
    unfolding nf dw x0_def x1_def x2_def ret2_def
    by (cases io; cases ocl; cases och) (auto split: if_splits)
qed

text \<open>
  Exactly: the transactions of a call are the due writes, each with the adapter's
  reply, up to and including the first that fails. So every transaction but the last
  of a call succeeded.
\<close>

lemma write_outputs_sends:
  "issued dev (snd (write_outputs ret0 dev v)) = send_until_failure dev [] (due_writes dev v)"
proof -
  define io where "io = (io_dir dev = GPIO_LINE_DIRECTION_OUT \<and>
                         byte_of 0 v \<noteq> byte_of 0 (last_output dev))"
  define ocl where "ocl = (byte_of 1 v \<noteq> byte_of 1 (last_output dev))"
  define och where "och = (byte_of 2 v \<noteq> byte_of 2 (last_output dev))"
  define r0 where "r0 = reply dev [] (wr_msg CMD_SET_IO (byte_of 0 v))"
  define x0 where "x0 = (if io then [(wr_msg CMD_SET_IO (byte_of 0 v), r0)] else [])"
  define r1 where "r1 = reply dev x0 (wr_msg CMD_SET_OC_L (byte_of 1 v))"
  define x1 where "x1 = (if ocl then [(wr_msg CMD_SET_OC_L (byte_of 1 v), r1)] else [])"
  define r2 where "r2 = reply dev (x0 @ x1) (wr_msg CMD_SET_OC_H (byte_of 2 v))"
  define x2 where "x2 = (if och then [(wr_msg CMD_SET_OC_H (byte_of 2 v), r2)] else [])"
  define ret2 where "ret2 = (if ocl then r1 else if io then r0 else ret0)"
  note nf = write_outputs_nf
    [OF io_def ocl_def och_def x0_def r0_def x1_def r1_def x2_def r2_def ret2_def]
  have dw: "due_writes dev v = map fst (x0 @ x1 @ x2)"
    by (simp add: due_writes_def x0_def x1_def x2_def io_def ocl_def och_def)
  show ?thesis
    unfolding nf dw
    by (cases io; cases ocl; cases och)
       (simp_all add: x0_def x1_def x2_def r0_def r1_def r2_def)
qed

lemma send_until_failure_butlast:
  assumes "\<forall>(m, r) \<in> set xs. 0 \<le> r"
  shows "\<forall>(m, r) \<in> set (butlast (send_until_failure dev xs ms)). 0 \<le> r"
  using assms
proof (induction ms arbitrary: xs)
  case Nil
  then show ?case
    by (auto dest: in_set_butlastD)
next
  case (Cons m ms)
  show ?case
  proof (cases "reply dev xs m < 0")
    case True
    with Cons.prems show ?thesis
      by simp
  next
    case False
    with Cons.prems have "\<forall>(m', r) \<in> set (xs @ [(m, reply dev xs m)]). 0 \<le> r"
      by auto
    from Cons.IH [OF this] False show ?thesis
      by simp
  qed
qed

lemma due_writes_addr:
  "m \<in> set (due_writes dev v) \<Longrightarrow> addr m \<in> {CMD_SET_IO, CMD_SET_OC_L, CMD_SET_OC_H}"
  by (auto simp: due_writes_def wr_msg_def split: if_splits)

lemma write_outputs_addr:
  assumes "(m, r) \<in> set (issued dev (snd (write_outputs ret0 dev v)))"
  shows "addr m \<in> {CMD_SET_IO, CMD_SET_OC_L, CMD_SET_OC_H}"
proof -
  from assms have "m \<in> set (map fst (issued dev (snd (write_outputs ret0 dev v))))"
    by force
  with write_outputs_due [of dev ret0 v] have "m \<in> set (due_writes dev v)"
    using set_mono_prefix by blast
  then show ?thesis
    by (rule due_writes_addr)
qed

subsection \<open>\<open>set_config\<close> and \<open>ch423_gpio_get\<close> in one step\<close>

lemma set_config_nf:
  "set_config dev cfg =
     (if config dev = cfg then (0, dev)
      else if reply dev [] (wr_msg CMD_CFG cfg) < 0
        then (reply dev [] (wr_msg CMD_CFG cfg),
              after dev [(wr_msg CMD_CFG cfg, reply dev [] (wr_msg CMD_CFG cfg))])
      else (0, (after dev [(wr_msg CMD_CFG cfg, reply dev [] (wr_msg CMD_CFG cfg))])
                 \<lparr>config := cfg\<rparr>))"
  by (simp add: set_config_def i2c_write_after)

lemma set_config_frame [simp]:
  "io_dir (snd (set_config dev cfg)) = io_dir dev"
  "last_output (snd (set_config dev cfg)) = last_output dev"
  "answer (client (snd (set_config dev cfg))) = answer (client dev)"
  by (simp_all add: set_config_nf)

lemma ch423_gpio_get_nf:
  "ch423_gpio_get dev offset =
     (if reply dev [] (rd_msg CMD_READ_IO) < 0 then reply dev [] (rd_msg CMD_READ_IO)
      else if bit (byte_read dev [] (rd_msg CMD_READ_IO)) offset then 1 else 0,
      after dev [(rd_msg CMD_READ_IO, reply dev [] (rd_msg CMD_READ_IO))])"
  by (simp add: ch423_gpio_get_def i2c_read_after get_bit)

subsection \<open>The line operations, step by step\<close>

lemma issued_append:
  assumes "traffic (client d) = traffic (client dev) @ xs"
    and "traffic (client d') = traffic (client d) @ ys"
  shows "issued dev d' = xs @ ys"
  using assms by (simp add: issued_def)

lemma set_config_traffic:
  "traffic (client (snd (set_config dev cfg))) =
     traffic (client dev) @ issued dev (snd (set_config dev cfg))"
  by (simp add: set_config_nf)

lemma ch423_gpio_set_frame [simp]:
  "config (ch423_gpio_set ret0 dev offset val) = config dev"
  "io_dir (ch423_gpio_set ret0 dev offset val) = io_dir dev"
  by (simp_all add: ch423_gpio_set_def)

lemma ch423_gpio_set_traffic:
  "traffic (client (ch423_gpio_set ret0 dev offset val)) =
     traffic (client dev) @ issued dev (ch423_gpio_set ret0 dev offset val)"
  unfolding ch423_gpio_set_def by (rule write_outputs_traffic)

lemma ch423_gpio_set_addr:
  assumes "(m, r) \<in> set (issued dev (ch423_gpio_set ret0 dev offset val))"
  shows "addr m \<in> {CMD_SET_IO, CMD_SET_OC_L, CMD_SET_OC_H}"
  using assms unfolding ch423_gpio_set_def by (rule write_outputs_addr)

lemma or_one_changes: "\<not> bit (c::u8) 0 \<Longrightarrow> c OR 1 \<noteq> c"
  by (metis bit_0 bit_or_iff odd_one)

lemma direction_input_nf:
  "ch423_gpio_direction_input dev offset =
     (if offset \<ge> 8 then (- EINVAL, dev)
      else (fst (set_config dev (config dev AND NOT 1)),
            if fst (set_config dev (config dev AND NOT 1)) = 0
            then (snd (set_config dev (config dev AND NOT 1)))\<lparr>io_dir := GPIO_LINE_DIRECTION_IN\<rparr>
            else snd (set_config dev (config dev AND NOT 1))))"
  by (simp add: ch423_gpio_direction_input_def CMD_CFG_IO_OE_def config_clear_bit
           split: prod.splits)

lemma direction_output_nf:
  "ch423_gpio_direction_output ret0 dev offset val =
     (if offset < 8 \<and> io_dir dev \<noteq> GPIO_LINE_DIRECTION_OUT
      then if fst (set_config dev (config dev OR 1)) < 0 then set_config dev (config dev OR 1)
           else (0, ch423_gpio_set ret0
                      ((snd (set_config dev (config dev OR 1)))
                         \<lparr>io_dir := GPIO_LINE_DIRECTION_OUT\<rparr>) offset val)
      else (0, ch423_gpio_set ret0 dev offset val))"
  by (simp add: ch423_gpio_direction_output_def CMD_CFG_IO_OE_def config_set_bit
           split: prod.splits)

lemma gpio_set_config_nf:
  "ch423_gpio_set_config to_param dev offset cfg =
     (if offset < 8 then (- ENOTSUPP, dev)
      else if to_param cfg = PIN_CONFIG_DRIVE_OPEN_DRAIN
        then set_config dev (config dev OR 0x10)
      else if to_param cfg = PIN_CONFIG_DRIVE_PUSH_PULL
        then set_config dev (config dev AND NOT 0x10)
      else (- ENOTSUPP, dev))"
  by (simp add: ch423_gpio_set_config_def CMD_CFG_OD_EN_def config_set_bit config_clear_bit)

text \<open>A failed transaction of \<open>set_config\<close> is its result.\<close>

lemma set_config_failure:
  "(m, r) \<in> set (issued dev (snd (set_config dev cfg))) \<Longrightarrow> r < 0
     \<Longrightarrow> fst (set_config dev cfg) = r"
  by (auto simp: set_config_nf split: if_splits)

lemma set_config_issued:
  "(m, r) \<in> set (issued dev (snd (set_config dev cfg)))
     \<Longrightarrow> m = wr_msg CMD_CFG cfg \<and> r = reply dev [] (wr_msg CMD_CFG cfg)"
  by (auto simp: set_config_nf split: if_splits)

lemma set_config_result: "fst (set_config dev cfg) \<le> 0"
  by (simp add: set_config_nf)

lemma issued_io_dir_update [simp]:
  "issued dev (d\<lparr>io_dir := x\<rparr>) = issued dev d"
  by (simp add: issued_def)

text \<open>
  The transactions of \<open>ch423_gpio_direction_output\<close>: those of its \<open>set_config\<close>, if it
  calls it, then those of \<open>ch423_gpio_set\<close>, if it gets there.
\<close>

lemma direction_output_issued:
  "issued dev (snd (ch423_gpio_direction_output ret0 dev offset val)) =
     (if offset < 8 \<and> io_dir dev \<noteq> GPIO_LINE_DIRECTION_OUT
      then if fst (set_config dev (config dev OR 1)) < 0
           then issued dev (snd (set_config dev (config dev OR 1)))
           else issued dev (snd (set_config dev (config dev OR 1))) @
                issued ((snd (set_config dev (config dev OR 1)))
                          \<lparr>io_dir := GPIO_LINE_DIRECTION_OUT\<rparr>)
                  (ch423_gpio_set ret0
                     ((snd (set_config dev (config dev OR 1)))
                        \<lparr>io_dir := GPIO_LINE_DIRECTION_OUT\<rparr>) offset val)
      else issued dev (ch423_gpio_set ret0 dev offset val))"
proof -
  let ?d = "(snd (set_config dev (config dev OR 1)))\<lparr>io_dir := GPIO_LINE_DIRECTION_OUT\<rparr>"
  have t1: "traffic (client ?d) =
              traffic (client dev) @ issued dev (snd (set_config dev (config dev OR 1)))"
    using set_config_traffic [of dev "config dev OR 1"] by simp
  have "issued dev (ch423_gpio_set ret0 ?d offset val) =
          issued dev (snd (set_config dev (config dev OR 1))) @
          issued ?d (ch423_gpio_set ret0 ?d offset val)"
    using t1 ch423_gpio_set_traffic [of ret0 ?d offset val] by (rule issued_append)
  then show ?thesis
    by (simp add: direction_output_nf)
qed

subsection \<open>The cached direction and the cached IO_OE bit\<close>

lemma coherent_after [simp]: "coherent (after dev xs) = coherent dev"
  by (simp add: coherent_def)

lemma coherent_write_outputs: "coherent (snd (write_outputs ret0 dev v)) = coherent dev"
  by (simp add: coherent_def)

lemma coherent_set: "coherent (ch423_gpio_set ret0 dev offset val) = coherent dev"
  by (simp add: ch423_gpio_set_def coherent_write_outputs)

lemma coherent_set_multiple: "coherent (ch423_gpio_set_multiple ret0 dev mask' bits) = coherent dev"
  by (simp add: ch423_gpio_set_multiple_def coherent_write_outputs)

lemma coherent_get: "coherent (snd (ch423_gpio_get dev offset)) = coherent dev"
  by (simp add: ch423_gpio_get_nf)

lemma coherent_direction_input:
  assumes "coherent dev"
  shows "coherent (snd (ch423_gpio_direction_input dev offset))"
proof (cases "config dev = config dev AND NOT 1")
  case True
  have "\<not> bit (config dev AND NOT 1) 0"
    by (simp add: bit_simps)
  with True have "\<not> bit (config dev) 0"
    by simp
  with assms True show ?thesis
    by (simp add: direction_input_nf set_config_nf coherent_def)
next
  case False
  with assms show ?thesis
    by (simp add: direction_input_nf set_config_nf coherent_def bit_simps)
qed

lemma coherent_direction_output:
  assumes "coherent dev"
  shows "coherent (snd (ch423_gpio_direction_output ret0 dev offset val))"
proof (cases "config dev = config dev OR 1")
  case True
  have "bit (config dev OR 1) 0"
    by (simp add: bit_simps)
  with True have "bit (config dev) 0"
    by simp
  with assms True show ?thesis
    by (simp add: direction_output_nf set_config_nf coherent_def coherent_set)
next
  case False
  with assms show ?thesis
    by (simp add: direction_output_nf set_config_nf coherent_def bit_simps)
qed

lemma coherent_gpio_set_config:
  "coherent dev \<Longrightarrow> coherent (snd (ch423_gpio_set_config to_param dev offset cfg))"
  by (simp add: gpio_set_config_nf set_config_nf coherent_def bit_simps)

lemma coherent_probe:
  "fst (ch423_probe ret0 adap) = 0 \<Longrightarrow> coherent (snd (ch423_probe ret0 adap))"
  by (simp add: ch423_probe_def set_config_nf coherent_def Let_def case_prod_beta
           split: if_splits)

subsection \<open>The device states used below\<close>

text \<open>
  \<open>dev_input\<close> holds the cached values that the probe leaves on an adapter that works,
  and \<open>dev_output\<close> those that a first \<open>ch423_gpio_direction_output\<close> leaves then.
\<close>

lemma probe_leaves_dev_input:
  "ch423_probe ret0 adapter_ok =
     (0, after (dev_input adapter_ok)
           [(wr_msg CMD_CFG 0, 1), (wr_msg CMD_SET_OC_L 0, 1), (wr_msg CMD_SET_OC_H 0, 1)])"
  by (simp add: ch423_probe_def run_defs after_def)

lemma direction_output_leaves_dev_output:
  "ch423_gpio_direction_output ret0 (dev_input adapter_ok) 3 0 =
     (0, after (dev_output adapter_ok) [(wr_msg CMD_CFG 1, 1)])"
  by (simp add: run_defs after_def)

lemma coherent_dev_input: "coherent (dev_input adap)"
  by (simp add: coherent_def dev_input_def)

lemma coherent_dev_output: "coherent (dev_output adap)"
  by (simp add: coherent_def dev_output_def)

section \<open>The claims\<close>

subsection \<open>C1: a failure after an earlier byte went out\<close>

text \<open>
  C1 as stated fails. With lines 0 to 7 as outputs and a cache of 0, \<open>write_outputs\<close> is
  asked for \<open>0x0101\<close> on an adapter that fails command \<open>0x22\<close> only: the write of byte 0
  (command \<open>0x30\<close>) succeeds, the write of byte 1 fails, the call returns the failure,
  and byte 0 of the cache is not the byte just written: the cache is assigned once, at
  the end of a call that went through.
\<close>

theorem C1_cache_keeps_earlier_byte_counterexample:
  "issued (dev_output (adapter_nak CMD_SET_OC_L))
      (snd (write_outputs 0 (dev_output (adapter_nak CMD_SET_OC_L)) 0x0101))
     = [(wr_msg CMD_SET_IO 1, 1), (wr_msg CMD_SET_OC_L 1, - 5)] \<and>
   fst (write_outputs 0 (dev_output (adapter_nak CMD_SET_OC_L)) 0x0101) = - 5 \<and>
   byte_of 0 (last_output (snd (write_outputs 0 (dev_output (adapter_nak CMD_SET_OC_L)) 0x0101)))
     \<noteq> byte_of 0 0x0101"
  by (simp add: run_defs byte_of_def)

text \<open>
  C1, amended: whenever a transaction of \<open>write_outputs\<close> for the bidirectional byte
  (command \<open>0x30\<close>) or for the low output-only byte (command \<open>0x22\<close>) fails, also after
  an earlier byte's transaction succeeded, the call returns that failure and the cached
  output shadow keeps its pre-call value in every byte; the byte written before the
  failure is not committed to the cache. (A failure of the \<open>0x23\<close> transaction is the
  subject of C2.)
\<close>

theorem C1_failure_returned_cache_unchanged:
  assumes "(m, r) \<in> set (issued dev (snd (write_outputs ret0 dev v)))"
    and "r < 0"
    and "addr m = CMD_SET_IO \<or> addr m = CMD_SET_OC_L"
  shows "fst (write_outputs ret0 dev v) = r \<and>
         last_output (snd (write_outputs ret0 dev v)) = last_output dev"
proof -
  from assms(3) have "addr m \<noteq> CMD_SET_OC_H"
    by (auto simp: cmd_defs)
  with assms(1,2) show ?thesis
    by (rule write_outputs_early_failure)
qed

theorem C1_failure_returned_cache_unchanged_witness:
  "(wr_msg CMD_SET_OC_L 1, - 5) \<in> set (issued (dev_output (adapter_nak CMD_SET_OC_L))
      (snd (write_outputs 0 (dev_output (adapter_nak CMD_SET_OC_L)) 0x0101))) \<and>
   (wr_msg CMD_SET_IO 1, 1) \<in> set (issued (dev_output (adapter_nak CMD_SET_OC_L))
      (snd (write_outputs 0 (dev_output (adapter_nak CMD_SET_OC_L)) 0x0101))) \<and>
   fst (write_outputs 0 (dev_output (adapter_nak CMD_SET_OC_L)) 0x0101) = - 5 \<and>
   last_output (snd (write_outputs 0 (dev_output (adapter_nak CMD_SET_OC_L)) 0x0101))
     = last_output (dev_output (adapter_nak CMD_SET_OC_L))"
proof -
  have sent: "issued (dev_output (adapter_nak CMD_SET_OC_L))
      (snd (write_outputs 0 (dev_output (adapter_nak CMD_SET_OC_L)) 0x0101))
     = [(wr_msg CMD_SET_IO 1, 1), (wr_msg CMD_SET_OC_L 1, - 5)]"
    by (simp add: run_defs)
  have mem: "(wr_msg CMD_SET_OC_L 1, - 5) \<in> set (issued (dev_output (adapter_nak CMD_SET_OC_L))
      (snd (write_outputs 0 (dev_output (adapter_nak CMD_SET_OC_L)) 0x0101)))"
    unfolding sent by simp
  have neg: "(- 5 :: int) < 0"
    by simp
  have cmd: "addr (wr_msg CMD_SET_OC_L 1) = CMD_SET_IO \<or> addr (wr_msg CMD_SET_OC_L 1) = CMD_SET_OC_L"
    by (simp add: wr_msg_def)
  from C1_failure_returned_cache_unchanged [OF mem neg cmd] mem show ?thesis
    unfolding sent by simp
qed

subsection \<open>C2: the result of the high-byte write\<close>

text \<open>
  C2 holds of the first two blocks and is broken by the third: the value of
  \<open>i2c_transfer\<close> for command \<open>0x23\<close> is not assigned to \<open>ret\<close>, so the test after it
  reads the reply to an earlier write. With a cache of 0, \<open>write_outputs\<close> is asked for
  \<open>0x010100\<close> on an adapter that fails command \<open>0x23\<close>: the write of byte 1 succeeds,
  the write of byte 2 fails with \<open>-5\<close>, and the call returns 0 and caches \<open>0x010100\<close>.
\<close>

theorem C2_high_byte_failure_returns_success:
  "issued (dev_input (adapter_nak CMD_SET_OC_H))
      (snd (write_outputs 0 (dev_input (adapter_nak CMD_SET_OC_H)) 0x010100))
     = [(wr_msg CMD_SET_OC_L 1, 1), (wr_msg CMD_SET_OC_H 1, - 5)] \<and>
   fst (write_outputs 0 (dev_input (adapter_nak CMD_SET_OC_H)) 0x010100) = 0 \<and>
   last_output (snd (write_outputs 0 (dev_input (adapter_nak CMD_SET_OC_H)) 0x010100))
     = 0x010100"
  by (simp add: run_defs)

text \<open>
  The same missing assignment lets the third block test \<open>ret\<close> before anything was
  assigned to it, when neither earlier block wrote. If \<open>ret\<close> then holds a negative
  value, a write of byte 2 that succeeded is returned as that value, and the cache is
  not updated.
\<close>

lemma write_outputs_tests_unassigned_ret:
  "issued (dev_input adapter_ok) (snd (write_outputs (- 1) (dev_input adapter_ok) 0x010000))
     = [(wr_msg CMD_SET_OC_H 1, 1)] \<and>
   fst (write_outputs (- 1) (dev_input adapter_ok) 0x010000) = - 1 \<and>
   last_output (snd (write_outputs (- 1) (dev_input adapter_ok) 0x010000)) = 0"
  by (simp add: run_defs)

subsection \<open>C3: which bytes are written\<close>

text \<open>
  C3 as stated fails. While lines 0 to 7 are inputs, byte 0 of the desired value differs
  from byte 0 of the cache and no transaction is issued: the first block is guarded by
  \<open>dev->io_dir == GPIO_LINE_DIRECTION_OUT\<close>.
\<close>

theorem C3_input_mode_byte0_not_written_counterexample:
  "byte_of 0 0x01 \<noteq> byte_of 0 (last_output (dev_input adapter_ok)) \<and>
   issued (dev_input adapter_ok) (snd (write_outputs 0 (dev_input adapter_ok) 0x01)) = []"
  by (simp add: run_defs byte_of_def)

text \<open>
  C3, amended: for every desired value and every cached output shadow, the due writes
  of a call of \<open>write_outputs\<close> are, in this order, command \<open>0x30\<close> with byte 0 iff byte 0
  differs from the cache and lines 0 to 7 are outputs, command \<open>0x22\<close> with byte 1 iff
  byte 1 differs, and command \<open>0x23\<close> with byte 2 iff byte 2 differs. The transactions
  the call issues are exactly the due writes, each with the reply of the adapter, up to
  and including the first that fails: a failed write ends the call, so every issued
  transaction but the last succeeded, the issued messages are an initial part of the
  due writes, and they are all of the due writes when none of the issued transactions
  fails. When all three bytes are unchanged, no transaction is issued.
\<close>

theorem C3_writes_are_the_changed_bytes:
  "issued dev (snd (write_outputs ret0 dev v))
     = send_until_failure dev [] (due_writes dev v) \<and>
   (\<forall>(m, r) \<in> set (butlast (issued dev (snd (write_outputs ret0 dev v)))). 0 \<le> r) \<and>
   prefix (map fst (issued dev (snd (write_outputs ret0 dev v)))) (due_writes dev v) \<and>
   ((\<forall>(m, r) \<in> set (issued dev (snd (write_outputs ret0 dev v))). 0 \<le> r) \<longrightarrow>
      map fst (issued dev (snd (write_outputs ret0 dev v))) = due_writes dev v) \<and>
   ((\<forall>k < 3. byte_of k v = byte_of k (last_output dev)) \<longrightarrow>
      issued dev (snd (write_outputs ret0 dev v)) = [])"
proof -
  have exact: "issued dev (snd (write_outputs ret0 dev v))
                 = send_until_failure dev [] (due_writes dev v)"
    by (rule write_outputs_sends)
  have stops: "\<forall>(m, r) \<in> set (butlast (issued dev (snd (write_outputs ret0 dev v)))). 0 \<le> r"
    unfolding exact by (rule send_until_failure_butlast) simp
  have none: "issued dev (snd (write_outputs ret0 dev v)) = []"
    if same: "\<forall>k < 3. byte_of k v = byte_of k (last_output dev)"
  proof -
    have "byte_of 0 v = byte_of 0 (last_output dev)" "byte_of 1 v = byte_of 1 (last_output dev)"
      "byte_of 2 v = byte_of 2 (last_output dev)"
      using same by simp_all
    then have "due_writes dev v = []"
      by (simp add: due_writes_def)
    with write_outputs_due [of dev ret0 v] show ?thesis
      by simp
  qed
  from exact stops none write_outputs_due [of dev ret0 v] show ?thesis
    by blast
qed

theorem C3_writes_are_the_changed_bytes_witness:
  "issued (dev_output adapter_ok) (snd (write_outputs 0 (dev_output adapter_ok) 0x030001))
     = [(wr_msg CMD_SET_IO 1, 1), (wr_msg CMD_SET_OC_H 3, 1)] \<and>
   due_writes (dev_output adapter_ok) 0x030001 = [wr_msg CMD_SET_IO 1, wr_msg CMD_SET_OC_H 3] \<and>
   byte_of 0 0 = byte_of 0 (last_output (dev_output adapter_ok)) \<and>
   byte_of 1 0 = byte_of 1 (last_output (dev_output adapter_ok)) \<and>
   byte_of 2 0 = byte_of 2 (last_output (dev_output adapter_ok)) \<and>
   issued (dev_output adapter_ok) (snd (write_outputs 0 (dev_output adapter_ok) 0)) = [] \<and>
   due_writes (dev_input (adapter_nak CMD_SET_OC_L)) 0x010100
     = [wr_msg CMD_SET_OC_L 1, wr_msg CMD_SET_OC_H 1] \<and>
   issued (dev_input (adapter_nak CMD_SET_OC_L))
      (snd (write_outputs 0 (dev_input (adapter_nak CMD_SET_OC_L)) 0x010100))
     = [(wr_msg CMD_SET_OC_L 1, - 5)]"
proof -
  have sent: "issued (dev_output adapter_ok)
      (snd (write_outputs 0 (dev_output adapter_ok) 0x030001))
     = [(wr_msg CMD_SET_IO 1, 1), (wr_msg CMD_SET_OC_H 3, 1)]"
    by (simp add: run_defs)
  have same: "\<forall>k < 3. byte_of k 0 = byte_of k (last_output (dev_output adapter_ok))"
    by (simp add: dev_output_def)
  have ok: "\<forall>(m, r) \<in> set (issued (dev_output adapter_ok)
        (snd (write_outputs 0 (dev_output adapter_ok) 0x030001))). 0 \<le> r"
    unfolding sent by simp
  from C3_writes_are_the_changed_bytes [of "dev_output adapter_ok" 0 "0x030001"] ok
  have due: "due_writes (dev_output adapter_ok) 0x030001
               = [wr_msg CMD_SET_IO 1, wr_msg CMD_SET_OC_H 3]"
    unfolding sent by simp
  from C3_writes_are_the_changed_bytes [of "dev_output adapter_ok" 0 0] same
  have none: "issued (dev_output adapter_ok) (snd (write_outputs 0 (dev_output adapter_ok) 0)) = []"
    by blast
  have low: "(257 :: u8) = 1"
    by (simp add: word_eq_iff_unsigned [where ?'a = nat])
  have due_nak: "due_writes (dev_input (adapter_nak CMD_SET_OC_L)) 0x010100
                   = [wr_msg CMD_SET_OC_L 1, wr_msg CMD_SET_OC_H 1]"
    by (simp add: due_writes_def byte_of_def dev_input_def low)
  have fails: "reply (dev_input (adapter_nak CMD_SET_OC_L)) [] (wr_msg CMD_SET_OC_L 1) = - 5"
    by (simp add: reply_def dev_input_def adapter_nak_def wr_msg_def)
  from C3_writes_are_the_changed_bytes [of "dev_input (adapter_nak CMD_SET_OC_L)" 0 "0x010100"]
  have stop: "issued (dev_input (adapter_nak CMD_SET_OC_L))
      (snd (write_outputs 0 (dev_input (adapter_nak CMD_SET_OC_L)) 0x010100))
     = [(wr_msg CMD_SET_OC_L 1, - 5)]"
    unfolding due_nak by (simp add: fails)
  from due none same due_nak stop show ?thesis
    unfolding sent by simp
qed

subsection \<open>C4: which transport errors reach the caller\<close>

text \<open>
  C4 as stated fails. \<open>ch423_gpio_direction_output\<close> is called for line 8 on an adapter
  that fails every message: the output write (command \<open>0x22\<close>) fails with \<open>-5\<close> and the
  call returns 0. \<open>ch423_gpio_set\<close> and \<open>ch423_gpio_set_multiple\<close> are \<open>void\<close>, as the
  \<open>set\<close> and \<open>set_multiple\<close> callbacks of \<open>struct gpio_chip\<close> are, and drop the value
  of \<open>write_outputs\<close>: all that \<open>ch423_gpio_set\<close> hands back for the same request is the
  device, with the failed transaction on the bus and the cache as before.
\<close>

theorem C4_output_write_failure_dropped_counterexample:
  "issued (dev_input adapter_dead)
      (snd (ch423_gpio_direction_output 0 (dev_input adapter_dead) 8 1))
     = [(wr_msg CMD_SET_OC_L 1, - 5)] \<and>
   fst (ch423_gpio_direction_output 0 (dev_input adapter_dead) 8 1) = 0 \<and>
   ch423_gpio_set 0 (dev_input adapter_dead) 8 1
     = after (dev_input adapter_dead) [(wr_msg CMD_SET_OC_L 1, - 5)]"
  by (simp add: run_defs after_def)

text \<open>
  C4, amended: every transport error of a bus transaction inside \<open>read\<close>
  (\<open>ch423_gpio_get\<close>), \<open>set_direction_input\<close> and \<open>set_drive_mode\<close>
  (\<open>ch423_gpio_set_config\<close>), and of the config transaction inside
  \<open>set_direction_output\<close>, is returned to the caller of that operation.
  \<open>set(pin, value)\<close> and \<open>set_multiple(mask, values)\<close> return nothing, and
  \<open>set_direction_output\<close> returns success unless its config transaction failed: a
  failure of the output write inside these three is not reported to their caller.
\<close>

theorem C4_reported_transport_errors:
  "((m, r) \<in> set (issued dev (snd (ch423_gpio_get dev offset))) \<and> r < 0
      \<longrightarrow> fst (ch423_gpio_get dev offset) = r) \<and>
   ((m, r) \<in> set (issued dev (snd (ch423_gpio_direction_input dev offset))) \<and> r < 0
      \<longrightarrow> fst (ch423_gpio_direction_input dev offset) = r) \<and>
   ((m, r) \<in> set (issued dev (snd (ch423_gpio_set_config to_param dev offset cfg))) \<and> r < 0
      \<longrightarrow> fst (ch423_gpio_set_config to_param dev offset cfg) = r) \<and>
   ((m, r) \<in> set (issued dev (snd (ch423_gpio_direction_output ret0 dev offset val))) \<and> r < 0
      \<and> addr m = CMD_CFG
      \<longrightarrow> fst (ch423_gpio_direction_output ret0 dev offset val) = r) \<and>
   ((\<forall>(m', r') \<in> set (issued dev (snd (ch423_gpio_direction_output ret0 dev offset val))).
        addr m' = CMD_CFG \<longrightarrow> 0 \<le> r')
      \<longrightarrow> fst (ch423_gpio_direction_output ret0 dev offset val) = 0)"
proof (intro conjI impI)
  assume "(m, r) \<in> set (issued dev (snd (ch423_gpio_get dev offset))) \<and> r < 0"
  then show "fst (ch423_gpio_get dev offset) = r"
    by (simp add: ch423_gpio_get_nf)
next
  assume "(m, r) \<in> set (issued dev (snd (ch423_gpio_direction_input dev offset))) \<and> r < 0"
  then show "fst (ch423_gpio_direction_input dev offset) = r"
    by (auto simp: direction_input_nf split: if_splits dest: set_config_failure)
next
  assume "(m, r) \<in> set (issued dev (snd (ch423_gpio_set_config to_param dev offset cfg)))
            \<and> r < 0"
  then show "fst (ch423_gpio_set_config to_param dev offset cfg) = r"
    by (auto simp: gpio_set_config_nf split: if_splits dest: set_config_failure)
next
  let ?out = "ch423_gpio_direction_output ret0 dev offset val"
  let ?cfg = "set_config dev (config dev OR 1)"
  assume a: "(m, r) \<in> set (issued dev (snd ?out)) \<and> r < 0 \<and> addr m = CMD_CFG"
  show "fst ?out = r"
  proof (cases "offset < 8 \<and> io_dir dev \<noteq> GPIO_LINE_DIRECTION_OUT")
    case True
    note guard = True
    show ?thesis
    proof (cases "fst ?cfg < 0")
      case True
      with guard a show ?thesis
        by (auto simp: direction_output_issued direction_output_nf dest: set_config_failure)
    next
      case False
      with guard a have
        "(m, r) \<in> set (issued dev (snd ?cfg)) \<or>
         (m, r) \<in> set (issued ((snd ?cfg)\<lparr>io_dir := GPIO_LINE_DIRECTION_OUT\<rparr>)
            (ch423_gpio_set ret0 ((snd ?cfg)\<lparr>io_dir := GPIO_LINE_DIRECTION_OUT\<rparr>) offset val))"
        by (simp add: direction_output_issued)
      then show ?thesis
      proof
        assume "(m, r) \<in> set (issued dev (snd ?cfg))"
        with a have "fst ?cfg = r"
          by (simp add: set_config_failure)
        with a False show ?thesis
          by simp
      next
        assume "(m, r) \<in> set (issued ((snd ?cfg)\<lparr>io_dir := GPIO_LINE_DIRECTION_OUT\<rparr>)
            (ch423_gpio_set ret0 ((snd ?cfg)\<lparr>io_dir := GPIO_LINE_DIRECTION_OUT\<rparr>) offset val))"
        then have "addr m \<in> {CMD_SET_IO, CMD_SET_OC_L, CMD_SET_OC_H}"
          by (rule ch423_gpio_set_addr)
        with a show ?thesis
          by (auto simp: cmd_defs)
      qed
    qed
  next
    case False
    with a have "addr m \<in> {CMD_SET_IO, CMD_SET_OC_L, CMD_SET_OC_H}"
      by (auto simp: direction_output_issued dest: ch423_gpio_set_addr)
    with a show ?thesis
      by (auto simp: cmd_defs)
  qed
next
  let ?out = "ch423_gpio_direction_output ret0 dev offset val"
  let ?cfg = "set_config dev (config dev OR 1)"
  assume a: "\<forall>(m', r') \<in> set (issued dev (snd ?out)). addr m' = CMD_CFG \<longrightarrow> 0 \<le> r'"
  show "fst ?out = 0"
  proof (cases "offset < 8 \<and> io_dir dev \<noteq> GPIO_LINE_DIRECTION_OUT \<and> fst ?cfg < 0")
    case True
    then have neq: "config dev \<noteq> config dev OR 1"
      and neg: "reply dev [] (wr_msg CMD_CFG (config dev OR 1)) < 0"
      by (auto simp: set_config_nf split: if_splits)
    from True neq neg have
      "issued dev (snd ?out) = [(wr_msg CMD_CFG (config dev OR 1),
                                  reply dev [] (wr_msg CMD_CFG (config dev OR 1)))]"
      by (simp add: direction_output_issued set_config_nf)
    with a have "0 \<le> reply dev [] (wr_msg CMD_CFG (config dev OR 1))"
      by (simp add: wr_msg_def)
    with neg show ?thesis
      by simp
  next
    case False
    then show ?thesis
      by (auto simp: direction_output_nf)
  qed
qed

theorem C4_reported_transport_errors_witness:
  "fst (ch423_gpio_get (dev_input adapter_dead) 3) = - 5 \<and>
   fst (ch423_gpio_direction_input (dev_output adapter_dead) 3) = - 5 \<and>
   fst (ch423_gpio_set_config (\<lambda>c. PIN_CONFIG_DRIVE_OPEN_DRAIN) (dev_input adapter_dead) 8 0) = - 5 \<and>
   fst (ch423_gpio_direction_output 0 (dev_input adapter_dead) 3 1) = - 5 \<and>
   fst (ch423_gpio_direction_output 0 (dev_input (adapter_nak CMD_SET_IO)) 3 1) = 0"
proof -
  have g: "issued (dev_input adapter_dead) (snd (ch423_gpio_get (dev_input adapter_dead) 3))
             = [(rd_msg CMD_READ_IO, - 5)]"
    by (simp add: run_defs)
  have i: "issued (dev_output adapter_dead)
             (snd (ch423_gpio_direction_input (dev_output adapter_dead) 3))
             = [(wr_msg CMD_CFG 0, - 5)]"
    by (simp add: run_defs)
  have c: "issued (dev_input adapter_dead)
             (snd (ch423_gpio_set_config (\<lambda>c. PIN_CONFIG_DRIVE_OPEN_DRAIN)
                     (dev_input adapter_dead) 8 0))
             = [(wr_msg CMD_CFG 16, - 5)]"
    by (simp add: run_defs)
  have d: "issued (dev_input adapter_dead)
             (snd (ch423_gpio_direction_output 0 (dev_input adapter_dead) 3 1))
             = [(wr_msg CMD_CFG 1, - 5)]"
    by (simp add: run_defs)
  have n: "issued (dev_input (adapter_nak CMD_SET_IO))
             (snd (ch423_gpio_direction_output 0 (dev_input (adapter_nak CMD_SET_IO)) 3 1))
             = [(wr_msg CMD_CFG 1, 1), (wr_msg CMD_SET_IO 8, - 5)]"
    by (simp add: run_defs)
  have 1: "fst (ch423_gpio_get (dev_input adapter_dead) 3) = - 5"
    using C4_reported_transport_errors
      [of "rd_msg CMD_READ_IO" "- 5" "dev_input adapter_dead" 3]
    unfolding g by simp
  have 2: "fst (ch423_gpio_direction_input (dev_output adapter_dead) 3) = - 5"
    using C4_reported_transport_errors
      [of "wr_msg CMD_CFG 0" "- 5" "dev_output adapter_dead" 3]
    unfolding i by simp
  have 3: "fst (ch423_gpio_set_config (\<lambda>c. PIN_CONFIG_DRIVE_OPEN_DRAIN)
                  (dev_input adapter_dead) 8 0) = - 5"
    using C4_reported_transport_errors
      [of "wr_msg CMD_CFG 16" "- 5" "dev_input adapter_dead" 8 "\<lambda>c. PIN_CONFIG_DRIVE_OPEN_DRAIN" 0]
    unfolding c by simp
  have 4: "fst (ch423_gpio_direction_output 0 (dev_input adapter_dead) 3 1) = - 5"
    using C4_reported_transport_errors
      [of "wr_msg CMD_CFG 1" "- 5" "dev_input adapter_dead" 3 _ _ 0 1]
    unfolding d by (simp add: wr_msg_def)
  have 5: "fst (ch423_gpio_direction_output 0 (dev_input (adapter_nak CMD_SET_IO)) 3 1) = 0"
    using C4_reported_transport_errors
      [of _ _ "dev_input (adapter_nak CMD_SET_IO)" 3 _ _ 0 1]
    unfolding n by (simp add: wr_msg_def cmd_defs)
  from 1 2 3 4 5 show ?thesis
    by simp
qed

subsection \<open>C5: reading a line\<close>

text \<open>
  C5 as stated fails for the output-only lines. \<open>ch423_gpio_get\<close> has no test of
  \<open>offset\<close>: for line 10 it reads command \<open>0x26\<close> like for any other line and returns 0,
  not \<open>-ENOTSUPP\<close>.
\<close>

theorem C5_read_of_output_only_line_counterexample:
  "issued (dev_input adapter_ok) (snd (ch423_gpio_get (dev_input adapter_ok) 10))
     = [(rd_msg CMD_READ_IO, 1)] \<and>
   fst (ch423_gpio_get (dev_input adapter_ok) 10) = 0 \<and>
   fst (ch423_gpio_get (dev_input adapter_ok) 10) \<noteq> - ENOTSUPP"
  by (simp add: run_defs)

text \<open>
  C5, amended: for every pin, \<open>read(pin)\<close> performs one bus read of command \<open>0x26\<close> and
  changes no cached value. If the read fails, its error is returned. If it succeeds,
  the result for a pin below 8 is bit \<open>pin\<close> of the byte read, and the result for a pin
  from 8 on is 0: no Unsupported condition is raised for the output-only lines.
\<close>

theorem C5_read_is_one_bus_read:
  "ch423_gpio_get dev offset =
     (if reply dev [] (rd_msg CMD_READ_IO) < 0 then reply dev [] (rd_msg CMD_READ_IO)
      else if offset < 8 \<and> bit (byte_read dev [] (rd_msg CMD_READ_IO)) offset then 1
      else 0,
      after dev [(rd_msg CMD_READ_IO, reply dev [] (rd_msg CMD_READ_IO))])"
proof -
  have "bit (byte_read dev [] (rd_msg CMD_READ_IO)) offset \<Longrightarrow> offset < 8"
    using bit_imp_le_length [of "byte_read dev [] (rd_msg CMD_READ_IO)" offset] by simp
  then show ?thesis
    by (auto simp: ch423_gpio_get_nf)
qed

subsection \<open>C6: \<open>set_config\<close>, once and twice\<close>

text \<open>
  C6 as stated fails in its last part. Two calls in a row with the value that is
  already cached issue no transaction at all; two calls in a row on an adapter that
  fails issue two, as the second call tries again.
\<close>

theorem C6_two_calls_not_one_transaction_counterexample:
  "issued (dev_input adapter_ok)
      (snd (set_config (snd (set_config (dev_input adapter_ok) 0)) 0)) = [] \<and>
   issued (dev_input adapter_dead)
      (snd (set_config (snd (set_config (dev_input adapter_dead) 1)) 1))
     = [(wr_msg CMD_CFG 1, - 5), (wr_msg CMD_CFG 1, - 5)]"
  by (simp add: run_defs)

text \<open>
  C6, amended: \<open>write_config(desired)\<close> issues no bus transaction and returns success
  when \<open>desired\<close> equals the cached config value; otherwise it issues exactly one bus
  write of command \<open>0x24\<close> with \<open>desired\<close> as payload and updates the cached config only
  if that transaction succeeds (on failure it returns the error and the cache is as
  before). Consequently, calling \<open>write_config\<close> twice in a row with the same desired
  value issues exactly one bus transaction in total when \<open>desired\<close> differed from the
  cached config and the first transaction succeeded; it issues none when \<open>desired\<close>
  was cached already, and two when the first transaction failed.
\<close>

theorem C6_set_config_once_and_twice:
  "(config dev = cfg \<longrightarrow> set_config dev cfg = (0, dev)) \<and>
   (config dev \<noteq> cfg \<longrightarrow>
      issued dev (snd (set_config dev cfg))
        = [(wr_msg CMD_CFG cfg, reply dev [] (wr_msg CMD_CFG cfg))] \<and>
      fst (set_config dev cfg)
        = (if reply dev [] (wr_msg CMD_CFG cfg) < 0 then reply dev [] (wr_msg CMD_CFG cfg)
           else 0) \<and>
      config (snd (set_config dev cfg))
        = (if reply dev [] (wr_msg CMD_CFG cfg) < 0 then config dev else cfg)) \<and>
   issued dev (snd (set_config (snd (set_config dev cfg)) cfg))
     = (if config dev = cfg then []
        else if reply dev [] (wr_msg CMD_CFG cfg) < 0
          then [(wr_msg CMD_CFG cfg, reply dev [] (wr_msg CMD_CFG cfg)),
                (wr_msg CMD_CFG cfg,
                 reply dev [(wr_msg CMD_CFG cfg, reply dev [] (wr_msg CMD_CFG cfg))]
                   (wr_msg CMD_CFG cfg))]
        else [(wr_msg CMD_CFG cfg, reply dev [] (wr_msg CMD_CFG cfg))])"
proof (cases "config dev = cfg")
  case True
  then show ?thesis
    by (simp add: set_config_nf)
next
  case False
  note differs = False
  show ?thesis
  proof (cases "reply dev [] (wr_msg CMD_CFG cfg) < 0")
    case True
    with differs show ?thesis
      by (simp add: set_config_nf)
  next
    case False
    with differs show ?thesis
      by (simp add: set_config_nf)
  qed
qed

theorem C6_set_config_once_and_twice_witness:
  "config (dev_input adapter_ok) \<noteq> 1 \<and>
   issued (dev_input adapter_ok) (snd (set_config (dev_input adapter_ok) 1))
     = [(wr_msg CMD_CFG 1, 1)] \<and>
   fst (set_config (dev_input adapter_ok) 1) = 0 \<and>
   config (snd (set_config (dev_input adapter_ok) 1)) = 1 \<and>
   issued (dev_input adapter_ok) (snd (set_config (snd (set_config (dev_input adapter_ok) 1)) 1))
     = [(wr_msg CMD_CFG 1, 1)] \<and>
   config (dev_input adapter_ok) = 0 \<and>
   set_config (dev_input adapter_ok) 0 = (0, dev_input adapter_ok)"
proof -
  have r: "reply (dev_input adapter_ok) [] (wr_msg CMD_CFG 1) = 1"
    by (simp add: reply_def dev_input_def adapter_ok_def)
  have c: "config (dev_input adapter_ok) = 0"
    by (simp add: dev_input_def)
  from C6_set_config_once_and_twice [of "dev_input adapter_ok" 1]
    C6_set_config_once_and_twice [of "dev_input adapter_ok" 0]
  show ?thesis
    unfolding r c by simp
qed

subsection \<open>C7: making the bidirectional lines outputs\<close>

text \<open>
  C7 as stated fails when the config transaction fails: on an adapter that fails every
  message, \<open>ch423_gpio_direction_output\<close> for line 3 issues the config write, returns
  its error, and the cached direction is still Input.
\<close>

theorem C7_direction_stays_input_on_failure_counterexample:
  "io_dir (dev_input adapter_dead) = GPIO_LINE_DIRECTION_IN \<and>
   ch423_gpio_direction_output 0 (dev_input adapter_dead) 3 1
     = (- 5, after (dev_input adapter_dead) [(wr_msg CMD_CFG 1, - 5)]) \<and>
   ch423_gpio_get_direction
      (snd (ch423_gpio_direction_output 0 (dev_input adapter_dead) 3 1)) 3
     = GPIO_LINE_DIRECTION_IN \<and>
   GPIO_LINE_DIRECTION_IN \<noteq> GPIO_LINE_DIRECTION_OUT"
  by (simp add: run_defs after_def)

text \<open>
  C7, amended: for every pin below 8 and every value, \<open>set_direction_output(pin, value)\<close>
  called while GroupDirection = Input (the cached direction is Input and the cached
  IO-direction-select bit is clear, as in every state the driver reaches) issues exactly
  one config transaction, which sets the IO-direction-select bit, before any other
  transaction. If that transaction succeeds, every further transaction of the call is
  an output write, the call records GroupDirection = Output and returns success, and
  afterwards \<open>get_direction(p)\<close> reports Output for every \<open>p\<close> in 0..7. If it fails, the
  call returns the error and nothing else happens: GroupDirection is still Input.
\<close>

theorem C7_direction_output_from_input:
  assumes "offset < 8"
    and "io_dir dev = GPIO_LINE_DIRECTION_IN"
    and "coherent dev"
  shows
    "(reply dev [] (wr_msg CMD_CFG (config dev OR 1)) < 0 \<longrightarrow>
        ch423_gpio_direction_output ret0 dev offset val =
          (reply dev [] (wr_msg CMD_CFG (config dev OR 1)),
           after dev [(wr_msg CMD_CFG (config dev OR 1),
                       reply dev [] (wr_msg CMD_CFG (config dev OR 1)))])) \<and>
     (0 \<le> reply dev [] (wr_msg CMD_CFG (config dev OR 1)) \<longrightarrow>
        fst (ch423_gpio_direction_output ret0 dev offset val) = 0 \<and>
        (\<exists>rest. issued dev (snd (ch423_gpio_direction_output ret0 dev offset val)) =
                  (wr_msg CMD_CFG (config dev OR 1),
                   reply dev [] (wr_msg CMD_CFG (config dev OR 1))) # rest \<and>
                (\<forall>(m, r) \<in> set rest. addr m \<in> {CMD_SET_IO, CMD_SET_OC_L, CMD_SET_OC_H})) \<and>
        bit (config (snd (ch423_gpio_direction_output ret0 dev offset val))) 0 \<and>
        io_dir (snd (ch423_gpio_direction_output ret0 dev offset val))
          = GPIO_LINE_DIRECTION_OUT \<and>
        (\<forall>p < 8. ch423_gpio_get_direction
                    (snd (ch423_gpio_direction_output ret0 dev offset val)) p
                  = GPIO_LINE_DIRECTION_OUT))"
proof -
  let ?c = "config dev OR 1"
  let ?r = "reply dev [] (wr_msg CMD_CFG ?c)"
  let ?d = "(snd (set_config dev ?c))\<lparr>io_dir := GPIO_LINE_DIRECTION_OUT\<rparr>"
  have dirs: "GPIO_LINE_DIRECTION_IN \<noteq> GPIO_LINE_DIRECTION_OUT"
    by (simp add: GPIO_LINE_DIRECTION_IN_def GPIO_LINE_DIRECTION_OUT_def)
  with assms have guard: "offset < 8 \<and> io_dir dev \<noteq> GPIO_LINE_DIRECTION_OUT"
    by simp
  from assms dirs have "\<not> bit (config dev) 0"
    by (auto simp: coherent_def split: if_splits)
  then have neq: "config dev \<noteq> ?c"
    using or_one_changes [of "config dev"] by simp
  have fails: "ch423_gpio_direction_output ret0 dev offset val =
                 (?r, after dev [(wr_msg CMD_CFG ?c, ?r)])" if "?r < 0"
    using that guard neq by (simp add: direction_output_nf set_config_nf)
  have works: "fst (ch423_gpio_direction_output ret0 dev offset val) = 0 \<and>
        (\<exists>rest. issued dev (snd (ch423_gpio_direction_output ret0 dev offset val)) =
                  (wr_msg CMD_CFG ?c, ?r) # rest \<and>
                (\<forall>(m, r) \<in> set rest. addr m \<in> {CMD_SET_IO, CMD_SET_OC_L, CMD_SET_OC_H})) \<and>
        bit (config (snd (ch423_gpio_direction_output ret0 dev offset val))) 0 \<and>
        io_dir (snd (ch423_gpio_direction_output ret0 dev offset val))
          = GPIO_LINE_DIRECTION_OUT \<and>
        (\<forall>p < 8. ch423_gpio_get_direction
                    (snd (ch423_gpio_direction_output ret0 dev offset val)) p
                  = GPIO_LINE_DIRECTION_OUT)" if ok: "0 \<le> ?r"
  proof -
    from ok neq have cfg: "set_config dev ?c = (0, (after dev [(wr_msg CMD_CFG ?c, ?r)])\<lparr>config := ?c\<rparr>)"
      by (simp add: set_config_nf)
    then have out: "ch423_gpio_direction_output ret0 dev offset val =
                      (0, ch423_gpio_set ret0 ?d offset val)"
      using guard by (simp add: direction_output_nf)
    have sent: "issued dev (snd (ch423_gpio_direction_output ret0 dev offset val)) =
                  (wr_msg CMD_CFG ?c, ?r) # issued ?d (ch423_gpio_set ret0 ?d offset val)"
      using guard cfg by (simp add: direction_output_issued)
    have rest: "\<forall>(m, r) \<in> set (issued ?d (ch423_gpio_set ret0 ?d offset val)).
                  addr m \<in> {CMD_SET_IO, CMD_SET_OC_L, CMD_SET_OC_H}"
      using ch423_gpio_set_addr [of _ _ ?d ret0 offset val] by blast
    have bit0: "bit (config (snd (ch423_gpio_direction_output ret0 dev offset val))) 0"
      unfolding out using cfg by (simp add: bit_simps)
    have dir: "io_dir (snd (ch423_gpio_direction_output ret0 dev offset val))
                 = GPIO_LINE_DIRECTION_OUT"
      unfolding out by simp
    from out sent rest bit0 dir show ?thesis
      by (simp add: ch423_gpio_get_direction_def)
  qed
  from fails works show ?thesis
    by blast
qed

theorem C7_direction_output_from_input_witness:
  "fst (ch423_gpio_direction_output 0 (dev_input adapter_ok) 3 1) = 0 \<and>
   issued (dev_input adapter_ok) (snd (ch423_gpio_direction_output 0 (dev_input adapter_ok) 3 1))
     = [(wr_msg CMD_CFG 1, 1), (wr_msg CMD_SET_IO 8, 1)] \<and>
   io_dir (snd (ch423_gpio_direction_output 0 (dev_input adapter_ok) 3 1))
     = GPIO_LINE_DIRECTION_OUT \<and>
   ch423_gpio_get_direction (snd (ch423_gpio_direction_output 0 (dev_input adapter_ok) 3 1)) 0
     = GPIO_LINE_DIRECTION_OUT \<and>
   ch423_gpio_get_direction (snd (ch423_gpio_direction_output 0 (dev_input adapter_ok) 3 1)) 7
     = GPIO_LINE_DIRECTION_OUT \<and>
   ch423_gpio_direction_output 0 (dev_input adapter_dead) 3 1
     = (- 5, after (dev_input adapter_dead) [(wr_msg CMD_CFG 1, - 5)])"
proof -
  have off: "(3::nat) < 8"
    by simp
  have dir: "io_dir (dev_input a) = GPIO_LINE_DIRECTION_IN" for a
    by (simp add: dev_input_def)
  have coh: "coherent (dev_input a)" for a
    by (simp add: coherent_def dev_input_def)
  have r_ok: "reply (dev_input adapter_ok) [] (wr_msg CMD_CFG 1) = 1"
    by (simp add: reply_def dev_input_def adapter_ok_def)
  have r_dead: "reply (dev_input adapter_dead) [] (wr_msg CMD_CFG 1) = - 5"
    by (simp add: reply_def dev_input_def adapter_dead_def)
  have c: "config (dev_input a) OR 1 = 1" for a
    by (simp add: dev_input_def)
  have sent: "issued (dev_input adapter_ok)
                (snd (ch423_gpio_direction_output 0 (dev_input adapter_ok) 3 1))
              = [(wr_msg CMD_CFG 1, 1), (wr_msg CMD_SET_IO 8, 1)]"
    by (simp add: run_defs)
  from C7_direction_output_from_input [OF off dir coh, of adapter_ok 0 1]
  have ok: "fst (ch423_gpio_direction_output 0 (dev_input adapter_ok) 3 1) = 0 \<and>
      io_dir (snd (ch423_gpio_direction_output 0 (dev_input adapter_ok) 3 1))
        = GPIO_LINE_DIRECTION_OUT \<and>
      (\<forall>p < 8. ch423_gpio_get_direction
                  (snd (ch423_gpio_direction_output 0 (dev_input adapter_ok) 3 1)) p
                = GPIO_LINE_DIRECTION_OUT)"
    unfolding c r_ok by simp
  from C7_direction_output_from_input [OF off dir coh, of adapter_dead 0 1]
  have dead: "ch423_gpio_direction_output 0 (dev_input adapter_dead) 3 1
     = (- 5, after (dev_input adapter_dead) [(wr_msg CMD_CFG 1, - 5)])"
    unfolding c r_dead by simp
  from ok dead sent show ?thesis
    by simp
qed

subsection \<open>C8: making the bidirectional lines inputs\<close>

text \<open>
  C8: for every pin from 8 on, \<open>set_direction_input(pin)\<close> fails with InvalidArgument
  (\<open>-EINVAL\<close>) and changes nothing, issuing no transaction. For every pin below 8 it
  calls \<open>set_config\<close> with the cached config less the IO-direction-select bit and returns
  its result; when that is success the cached direction is Input and the cached
  config has the bit clear; when it is a transport error the cached direction and the
  cached config are as before. The output shadow is never changed.
\<close>

theorem C8_direction_input:
  "(8 \<le> offset \<longrightarrow> ch423_gpio_direction_input dev offset = (- EINVAL, dev)) \<and>
   (offset < 8 \<longrightarrow>
      fst (ch423_gpio_direction_input dev offset)
        = fst (set_config dev (config dev AND NOT 1)) \<and>
      issued dev (snd (ch423_gpio_direction_input dev offset))
        = issued dev (snd (set_config dev (config dev AND NOT 1))) \<and>
      last_output (snd (ch423_gpio_direction_input dev offset)) = last_output dev \<and>
      (fst (ch423_gpio_direction_input dev offset) = 0 \<longrightarrow>
         io_dir (snd (ch423_gpio_direction_input dev offset)) = GPIO_LINE_DIRECTION_IN \<and>
         config (snd (ch423_gpio_direction_input dev offset)) = config dev AND NOT 1 \<and>
         \<not> bit (config (snd (ch423_gpio_direction_input dev offset))) 0) \<and>
      (fst (ch423_gpio_direction_input dev offset) \<noteq> 0 \<longrightarrow>
         fst (ch423_gpio_direction_input dev offset) < 0 \<and>
         issued dev (snd (ch423_gpio_direction_input dev offset))
           = [(wr_msg CMD_CFG (config dev AND NOT 1), fst (ch423_gpio_direction_input dev offset))] \<and>
         io_dir (snd (ch423_gpio_direction_input dev offset)) = io_dir dev \<and>
         config (snd (ch423_gpio_direction_input dev offset)) = config dev))"
proof (cases "8 \<le> offset")
  case True
  then show ?thesis
    by (simp add: direction_input_nf)
next
  case False
  have clear: "\<not> bit (config dev AND NOT 1) 0"
    by (simp add: bit_simps)
  show ?thesis
  proof (cases "config dev = config dev AND NOT 1")
    case True
    with clear have "\<not> bit (config dev) 0"
      by simp
    with \<open>\<not> 8 \<le> offset\<close> True show ?thesis
      by (simp add: direction_input_nf set_config_nf)
  next
    case False
    with \<open>\<not> 8 \<le> offset\<close> clear show ?thesis
      by (simp add: direction_input_nf set_config_nf)
  qed
qed

theorem C8_direction_input_witness:
  "ch423_gpio_direction_input (dev_output adapter_ok) 10 = (- EINVAL, dev_output adapter_ok) \<and>
   fst (ch423_gpio_direction_input (dev_output adapter_ok) 3) = 0 \<and>
   io_dir (snd (ch423_gpio_direction_input (dev_output adapter_ok) 3)) = GPIO_LINE_DIRECTION_IN \<and>
   config (snd (ch423_gpio_direction_input (dev_output adapter_ok) 3)) = 0 \<and>
   fst (ch423_gpio_direction_input (dev_output adapter_dead) 3) = - 5 \<and>
   io_dir (snd (ch423_gpio_direction_input (dev_output adapter_dead) 3))
     = io_dir (dev_output adapter_dead) \<and>
   config (snd (ch423_gpio_direction_input (dev_output adapter_dead) 3))
     = config (dev_output adapter_dead)"
proof -
  have ok: "fst (set_config (dev_output adapter_ok) 0) = 0"
    by (simp add: run_defs)
  have dead: "fst (set_config (dev_output adapter_dead) 0) = - 5"
    by (simp add: run_defs)
  have c: "config (dev_output a) AND NOT 1 = 0" for a
    by (simp add: dev_output_def)
  from C8_direction_input [of 10 "dev_output adapter_ok"]
    C8_direction_input [of 3 "dev_output adapter_ok"]
    C8_direction_input [of 3 "dev_output adapter_dead"]
  show ?thesis
    unfolding c ok dead by simp
qed

subsection \<open>C9: the value \<open>ch423_gpio_set\<close> asks for\<close>

text \<open>
  C9: for every pin below 24 and every value in \<open>{0, 1}\<close>, the 24-bit value that
  \<open>set(pin, value)\<close> computes and hands to \<open>write_outputs\<close> has \<open>value\<close> at bit \<open>pin\<close>
  and the cached bit at every other position.
\<close>

theorem C9_set_changes_one_bit:
  assumes "offset < 24" and "val = 0 \<or> val = 1"
  shows "ch423_gpio_set ret0 dev offset val
           = snd (write_outputs ret0 dev (set_values dev offset val)) \<and>
         (\<forall>i. i \<noteq> offset \<longrightarrow>
            bit (set_values dev offset val) i = bit (last_output dev) i) \<and>
         bit (set_values dev offset val) offset = (val = 1)"
proof -
  have other: "bit (set_values dev offset val) i = bit (last_output dev) i"
    if "i \<noteq> offset" for i
    using that assms
    by (auto simp: set_values_def BIT_def bit_simps dest: bit_imp_le_length)
  have this: "bit (set_values dev offset val) offset = (val = 1)"
    using assms by (auto simp: set_values_def BIT_def bit_simps)
  from other this show ?thesis
    by (simp add: ch423_gpio_set_def)
qed

theorem C9_set_changes_one_bit_witness:
  "(9::nat) < 24 \<and>
   set_values (dev_input adapter_ok) 9 1 = 0x200 \<and>
   bit (set_values (dev_input adapter_ok) 9 1) 9 \<and>
   \<not> bit (set_values (dev_input adapter_ok) 9 1) 8"
proof -
  have lt: "(9::nat) < 24"
    by simp
  have v: "(1 :: 32 word) = 0 \<or> (1 :: 32 word) = 1"
    by simp
  have old: "\<not> bit (last_output (dev_input adapter_ok)) 8"
    by (simp add: dev_input_def)
  have val: "set_values (dev_input adapter_ok) 9 1 = 0x200"
    by (simp add: set_values_def BIT_def dev_input_def)
  from C9_set_changes_one_bit [OF lt v, of 0 "dev_input adapter_ok"]
  have "bit (set_values (dev_input adapter_ok) 9 1) 9"
    and "bit (set_values (dev_input adapter_ok) 9 1) 8 = bit (last_output (dev_input adapter_ok)) 8"
    by simp_all
  with old val lt show ?thesis
    by simp
qed

subsection \<open>C10: the drive mode of the output-only lines\<close>

text \<open>
  C10: for every pin from 8 on, \<open>set_drive_mode(pin, mode)\<close> with mode OpenDrain or
  PushPull leaves the output shadow, the cached direction and every bit of the cached
  config other than the open-drain bit (bit 4) as they were; when it returns success
  the open-drain bit is set for OpenDrain and clear for PushPull. With any other
  parameter it fails with Unsupported (\<open>-ENOTSUPP\<close>), issues no bus transaction and
  changes no cached state.
\<close>

theorem C10_drive_mode_touches_bit4_only:
  assumes "8 \<le> offset"
  shows
    "(to_param cfg = PIN_CONFIG_DRIVE_OPEN_DRAIN \<or> to_param cfg = PIN_CONFIG_DRIVE_PUSH_PULL \<longrightarrow>
        last_output (snd (ch423_gpio_set_config to_param dev offset cfg)) = last_output dev \<and>
        io_dir (snd (ch423_gpio_set_config to_param dev offset cfg)) = io_dir dev \<and>
        (\<forall>i. i \<noteq> 4 \<longrightarrow>
           bit (config (snd (ch423_gpio_set_config to_param dev offset cfg))) i
             = bit (config dev) i) \<and>
        (fst (ch423_gpio_set_config to_param dev offset cfg) = 0 \<longrightarrow>
           bit (config (snd (ch423_gpio_set_config to_param dev offset cfg))) 4
             = (to_param cfg = PIN_CONFIG_DRIVE_OPEN_DRAIN))) \<and>
     (to_param cfg \<noteq> PIN_CONFIG_DRIVE_OPEN_DRAIN \<and> to_param cfg \<noteq> PIN_CONFIG_DRIVE_PUSH_PULL \<longrightarrow>
        ch423_gpio_set_config to_param dev offset cfg = (- ENOTSUPP, dev))"
proof -
  have od: ?thesis if p: "to_param cfg = PIN_CONFIG_DRIVE_OPEN_DRAIN"
  proof (cases "config dev = config dev OR 16")
    case True
    then have "bit (config dev) 4 = bit (config dev OR 16) 4"
      by simp
    then have "bit (config dev) 4"
      by (simp only: set_bit4) simp
    with True p assms show ?thesis
      by (simp add: gpio_set_config_nf set_config_nf)
  next
    case False
    with p assms show ?thesis
      by (simp add: gpio_set_config_nf set_config_nf set_bit4)
  qed
  have pp: ?thesis if p: "to_param cfg = PIN_CONFIG_DRIVE_PUSH_PULL"
  proof (cases "config dev = config dev AND NOT 16")
    case True
    then have "bit (config dev) 4 = bit (config dev AND NOT 16) 4"
      by simp
    then have "\<not> bit (config dev) 4"
      by (simp only: clear_bit4) simp
    with True p assms show ?thesis
      by (simp add: gpio_set_config_nf set_config_nf)
  next
    case False
    with p assms show ?thesis
      by (simp add: gpio_set_config_nf set_config_nf clear_bit4')
  qed
  have other: ?thesis
    if "to_param cfg \<noteq> PIN_CONFIG_DRIVE_OPEN_DRAIN" "to_param cfg \<noteq> PIN_CONFIG_DRIVE_PUSH_PULL"
    using that assms by (simp add: gpio_set_config_nf)
  from od pp other show ?thesis
    by blast
qed

theorem C10_drive_mode_touches_bit4_only_witness:
  "(8::nat) \<le> 10 \<and>
   fst (ch423_gpio_set_config
          (\<lambda>c. if c = 1 then PIN_CONFIG_DRIVE_OPEN_DRAIN else PIN_CONFIG_OTHER 0)
          (dev_output adapter_ok) 10 1) = 0 \<and>
   bit (config (snd (ch423_gpio_set_config
          (\<lambda>c. if c = 1 then PIN_CONFIG_DRIVE_OPEN_DRAIN else PIN_CONFIG_OTHER 0)
          (dev_output adapter_ok) 10 1))) 4 \<and>
   bit (config (snd (ch423_gpio_set_config
          (\<lambda>c. if c = 1 then PIN_CONFIG_DRIVE_OPEN_DRAIN else PIN_CONFIG_OTHER 0)
          (dev_output adapter_ok) 10 1))) 0 \<and>
   last_output (snd (ch423_gpio_set_config
          (\<lambda>c. if c = 1 then PIN_CONFIG_DRIVE_OPEN_DRAIN else PIN_CONFIG_OTHER 0)
          (dev_output adapter_ok) 10 1)) = 0 \<and>
   ch423_gpio_set_config
      (\<lambda>c. if c = 1 then PIN_CONFIG_DRIVE_OPEN_DRAIN else PIN_CONFIG_OTHER 0)
      (dev_output adapter_ok) 10 2
     = (- ENOTSUPP, dev_output adapter_ok)"
proof -
  let ?tp = "\<lambda>c::ulong. if c = 1 then PIN_CONFIG_DRIVE_OPEN_DRAIN else PIN_CONFIG_OTHER 0"
  have le: "(8::nat) \<le> 10"
    by simp
  have ok: "fst (ch423_gpio_set_config ?tp (dev_output adapter_ok) 10 1) = 0"
    by (simp add: run_defs)
  have old: "bit (config (dev_output adapter_ok)) 0" "last_output (dev_output adapter_ok) = 0"
    by (simp_all add: dev_output_def)
  from C10_drive_mode_touches_bit4_only [OF le, of ?tp 1 "dev_output adapter_ok"] ok old
  have od: "bit (config (snd (ch423_gpio_set_config ?tp (dev_output adapter_ok) 10 1))) 4"
    "bit (config (snd (ch423_gpio_set_config ?tp (dev_output adapter_ok) 10 1))) 0"
    "last_output (snd (ch423_gpio_set_config ?tp (dev_output adapter_ok) 10 1)) = 0"
    by simp_all
  from C10_drive_mode_touches_bit4_only [OF le, of ?tp 2 "dev_output adapter_ok"]
  have "ch423_gpio_set_config ?tp (dev_output adapter_ok) 10 2
          = (- ENOTSUPP, dev_output adapter_ok)"
    by simp
  with le ok od show ?thesis
    by simp
qed

end
